theory Spec2Isabelle
  imports Main "HOL-Library.Sublist" "HOL-Library.AList"
begin

section \<open>Vault configuration validation (src/utils/validation.ts)\<close>

text \<open>
  Strings are lists of characters. An optional property (\<^verbatim>\<open>vaultId?: string\<close>) or a
  value that may be \<^verbatim>\<open>undefined\<close>/\<^verbatim>\<open>null\<close> is an \<open>option\<close>; JavaScript's truthiness
  test of such a value (\<^verbatim>\<open>!params.vaultId\<close>) is \<open>falsy\<close>: absent or the empty string.
\<close>

definition falsy :: "string option \<Rightarrow> bool" where
  "falsy v = (case v of None \<Rightarrow> True | Some s \<Rightarrow> s = [])"

subsection \<open>The regular expression of \<^verbatim>\<open>extractClusterId\<close>\<close>

text \<open>
  \<^verbatim>\<open>vaultUrl.match(/(?:https?:\/\/)?([^.]+)\.vault/)\<close> is an unanchored match by a
  backtracking matcher: start positions are tried from the left; at one start position
  the optional scheme group is tried first with the scheme and then without it, \<^verbatim>\<open>s?\<close>
  first with the \<^verbatim>\<open>s\<close> and then without, and the greedy \<^verbatim>\<open>[^.]+\<close> first with the
  longest run of non-dot characters and then with each shorter one down to one character.
  The functions below transcribe exactly this; each returns capture group 1.
\<close>

definition lit :: "string \<Rightarrow> string \<Rightarrow> string option" where
  \<comment> \<open>a literal at the current position: the rest of the input after it\<close>
  "lit p s = (if prefix p s then Some (drop (length p) s) else None)"

fun first_some :: "'a option list \<Rightarrow> 'a option" where
  "first_some [] = None"
| "first_some (Some x # _) = Some x"
| "first_some (None # xs) = first_some xs"

fun group_then_vault :: "nat \<Rightarrow> string \<Rightarrow> string option" where
  \<comment> \<open>\<^verbatim>\<open>([^.]+)\.vault\<close> with the group taking \<open>n\<close>, then \<open>n - 1\<close>, ..., then 1 character\<close>
  "group_then_vault 0 s = None"
| "group_then_vault (Suc n) s =
     (if prefix ''.vault'' (drop (Suc n) s) then Some (take (Suc n) s)
      else group_then_vault n s)"

definition match_label :: "string \<Rightarrow> string option" where
  "match_label s = group_then_vault (length (takeWhile (\<lambda>c. c \<noteq> CHR ''.'') s)) s"

definition scheme_rests :: "string \<Rightarrow> string list" where
  \<comment> \<open>\<^verbatim>\<open>https?:\/\/\<close>: the inputs left after the scheme, in the matcher's order of preference\<close>
  "scheme_rests s =
     (case lit ''http'' s of
        None \<Rightarrow> []
      | Some r \<Rightarrow>
          (case lit ''s'' r of
             None \<Rightarrow> []
           | Some r' \<Rightarrow> (case lit ''://'' r' of None \<Rightarrow> [] | Some x \<Rightarrow> [x]))
          @ (case lit ''://'' r of None \<Rightarrow> [] | Some x \<Rightarrow> [x]))"

definition match_here :: "string \<Rightarrow> string option" where
  \<comment> \<open>the whole pattern at one start position\<close>
  "match_here s = first_some (map match_label (scheme_rests s @ [s]))"

fun search :: "string \<Rightarrow> string option" where
  \<comment> \<open>the leftmost start position at which the pattern matches\<close>
  "search [] = match_here []"
| "search (c # cs) =
     (case match_here (c # cs) of Some g \<Rightarrow> Some g | None \<Rightarrow> search cs)"

definition extractClusterId :: "string \<Rightarrow> string option" where
  \<comment> \<open>\<^verbatim>\<open>match?.[1] ?? null\<close>; \<open>None\<close> is \<^verbatim>\<open>null\<close>\<close>
  "extractClusterId vaultUrl = search vaultUrl"

subsection \<open>\<^verbatim>\<open>validateVaultConfig\<close>\<close>

record VaultConfig =
  vaultId :: string
  vaultUrl :: string
  clusterId :: string
  accountId :: "string option"
  workspaceId :: "string option"

record ValidationResult =
  isValid :: bool
  error :: "string option"
  config :: "VaultConfig option"

text \<open>The parameter object \<^verbatim>\<open>{vaultId?, vaultUrl?, accountId?, workspaceId?}\<close>.\<close>

record VaultParams =
  p_vaultId :: "string option"
  p_vaultUrl :: "string option"
  p_accountId :: "string option"
  p_workspaceId :: "string option"

definition validateVaultConfig :: "VaultParams \<Rightarrow> ValidationResult" where
  "validateVaultConfig params =
     (if falsy (p_vaultId params) then
        \<lparr>isValid = False, error = Some ''vaultId is required'', config = None\<rparr>
      else if falsy (p_vaultUrl params) then
        \<lparr>isValid = False, error = Some ''vaultUrl is required'', config = None\<rparr>
      else
        (let clusterId = extractClusterId (the (p_vaultUrl params)) in
         if falsy clusterId then
           \<lparr>isValid = False,
            error = Some ''Invalid vaultUrl format. Expected format: https://<clusterId>.vault.skyflowapis.com'',
            config = None\<rparr>
         else
           \<lparr>isValid = True, error = None,
            config = Some \<lparr>vaultId = the (p_vaultId params),
                           vaultUrl = the (p_vaultUrl params),
                           clusterId = the clusterId,
                           accountId = p_accountId params,
                           workspaceId = p_workspaceId params\<rparr>\<rparr>))"

section \<open>JavaScript values and thrown values\<close>

text \<open>
  The caller's operation returns a value of any type \<^verbatim>\<open>T\<close>. A non-null object is seen
  through its own enumerable string-keyed properties, in property order (for an array
  these are its index properties): this is what the object spread copies. Inherited and
  accessor properties of a result are not modelled. Numbers are only passed along, never
  computed with.
\<close>

datatype jsval =
    JUndefined
  | JNull
  | JBool bool
  | JNum int
  | JStr string
  | JObj "(string \<times> jsval) list"

fun typeof :: "jsval \<Rightarrow> string" where
  "typeof JUndefined = ''undefined''"
| "typeof JNull = ''object''"
| "typeof (JBool b) = ''boolean''"
| "typeof (JNum n) = ''number''"
| "typeof (JStr s) = ''string''"
| "typeof (JObj ps) = ''object''"

fun get_property :: "jsval \<Rightarrow> string \<Rightarrow> jsval" where
  \<comment> \<open>\<^verbatim>\<open>result[field]\<close>; a missing property reads as \<^verbatim>\<open>undefined\<close>\<close>
  "get_property (JObj ps) f = (case map_of ps f of Some v \<Rightarrow> v | None \<Rightarrow> JUndefined)"
| "get_property _ f = JUndefined"

fun spread_with :: "jsval \<Rightarrow> string \<Rightarrow> jsval \<Rightarrow> jsval" where
  \<comment> \<open>\<^verbatim>\<open>{ ...result, [field]: v }\<close>; spreading a value without own properties gives none\<close>
  "spread_with (JObj ps) f v = JObj (AList.update f v ps)"
| "spread_with _ f v = JObj [(f, v)]"

text \<open>
  What a \<^verbatim>\<open>catch\<close> can receive: the vault library's \<^verbatim>\<open>SkyflowError\<close> (with its optional
  \<^verbatim>\<open>error: {http_code, details}\<close> payload, an absent member being \<^verbatim>\<open>undefined\<close>), another
  \<^verbatim>\<open>Error\<close> object, one of this SDK's own errors (src/client/errors.ts), or a value that is
  no \<^verbatim>\<open>Error\<close> at all.
\<close>

datatype thrown =
    SkyflowError (message: string) (payload: "(jsval \<times> jsval) option")
  | Error (message: string)
  | SkyflowMCPError (name: string) (code: string) (message: string)
      (cause: "thrown option") (httpCode: "int option") (details: jsval)
  | NonError jsval

fun instanceof_Error :: "thrown \<Rightarrow> bool" where
  "instanceof_Error (NonError v) = False"
| "instanceof_Error _ = True"

definition ConfigurationError :: "string \<Rightarrow> thrown option \<Rightarrow> thrown" where
  "ConfigurationError msg c =
     SkyflowMCPError ''ConfigurationError'' ''CONFIGURATION_ERROR'' msg c None JUndefined"

definition AuthenticationError :: "string \<Rightarrow> thrown option \<Rightarrow> thrown" where
  "AuthenticationError msg c =
     SkyflowMCPError ''AuthenticationError'' ''AUTHENTICATION_ERROR'' msg c None JUndefined"

definition DeidentifyError :: "string \<Rightarrow> int option \<Rightarrow> jsval \<Rightarrow> thrown option \<Rightarrow> thrown" where
  "DeidentifyError msg h d c = SkyflowMCPError ''DeidentifyError'' ''DEIDENTIFY_ERROR'' msg c h d"

definition ReidentifyError :: "string \<Rightarrow> int option \<Rightarrow> jsval \<Rightarrow> thrown option \<Rightarrow> thrown" where
  "ReidentifyError msg h d c = SkyflowMCPError ''ReidentifyError'' ''REIDENTIFY_ERROR'' msg c h d"

section \<open>The entity vocabulary (src/utils/entityMaps.ts)\<close>

definition ENTITY_TYPES :: "string list" where
  "ENTITY_TYPES =
     [
      ''age'', ''bank_account'', ''credit_card'', ''credit_card_expiration'', ''cvv'',
      ''date'', ''date_interval'', ''dob'', ''driver_license'', ''email_address'',
      ''healthcare_number'', ''ip_address'', ''location'', ''name'', ''numerical_pii'',
      ''phone_number'', ''ssn'', ''url'', ''vehicle_id'', ''medical_code'',
      ''name_family'', ''name_given'', ''account_number'', ''event'', ''filename'',
      ''gender'', ''language'', ''location_address'', ''location_city'',
      ''location_coordinate'', ''location_country'', ''location_state'',
      ''location_zip'', ''marital_status'', ''money'', ''name_medical_professional'',
      ''occupation'', ''organization'', ''organization_medical_facility'', ''origin'',
      ''passport_number'', ''password'', ''physical_attribute'',
      ''political_affiliation'', ''religion'', ''time'', ''username'', ''zodiac_sign'',
      ''blood_type'', ''condition'', ''dose'', ''drug'', ''injury'',
      ''medical_process'', ''statistics'', ''routing_number'', ''corporate_action'',
      ''financial_metric'', ''product'', ''trend'', ''duration'',
      ''location_address_street'', ''all'', ''sexuality'', ''effect'', ''project'',
      ''organization_id'', ''day'', ''month'']"

text \<open>
  \<^verbatim>\<open>ENTITY_MAP\<close> is an object literal: its own keys, each with the name of the member of the
  vault library's \<^verbatim>\<open>DetectEntities\<close> enumeration it holds.
\<close>

definition ENTITY_MAP :: "(string \<times> string) list" where
  "ENTITY_MAP =
     [
      (''age'', ''AGE''), (''bank_account'', ''BANK_ACCOUNT''),
      (''credit_card'', ''CREDIT_CARD''),
      (''credit_card_expiration'', ''CREDIT_CARD_EXPIRATION''), (''cvv'', ''CVV''),
      (''date'', ''DATE''), (''date_interval'', ''DATE_INTERVAL''), (''dob'', ''DOB''),
      (''driver_license'', ''DRIVER_LICENSE''), (''email_address'', ''EMAIL_ADDRESS''),
      (''healthcare_number'', ''HEALTHCARE_NUMBER''), (''ip_address'', ''IP_ADDRESS''),
      (''location'', ''LOCATION''), (''name'', ''NAME''),
      (''numerical_pii'', ''NUMERICAL_PII''), (''phone_number'', ''PHONE_NUMBER''),
      (''ssn'', ''SSN''), (''url'', ''URL''), (''vehicle_id'', ''VEHICLE_ID''),
      (''medical_code'', ''MEDICAL_CODE''), (''name_family'', ''NAME_FAMILY''),
      (''name_given'', ''NAME_GIVEN''), (''account_number'', ''ACCOUNT_NUMBER''),
      (''event'', ''EVENT''), (''filename'', ''FILENAME''), (''gender'', ''GENDER''),
      (''language'', ''LANGUAGE''), (''location_address'', ''LOCATION_ADDRESS''),
      (''location_city'', ''LOCATION_CITY''),
      (''location_coordinate'', ''LOCATION_COORDINATE''),
      (''location_country'', ''LOCATION_COUNTRY''),
      (''location_state'', ''LOCATION_STATE''), (''location_zip'', ''LOCATION_ZIP''),
      (''marital_status'', ''MARITAL_STATUS''), (''money'', ''MONEY''),
      (''name_medical_professional'', ''NAME_MEDICAL_PROFESSIONAL''),
      (''occupation'', ''OCCUPATION''), (''organization'', ''ORGANIZATION''),
      (''organization_medical_facility'', ''ORGANIZATION_MEDICAL_FACILITY''),
      (''origin'', ''ORIGIN''), (''passport_number'', ''PASSPORT_NUMBER''),
      (''password'', ''PASSWORD''), (''physical_attribute'', ''PHYSICAL_ATTRIBUTE''),
      (''political_affiliation'', ''POLITICAL_AFFILIATION''),
      (''religion'', ''RELIGION''), (''time'', ''TIME''), (''username'', ''USERNAME''),
      (''zodiac_sign'', ''ZODIAC_SIGN''), (''blood_type'', ''BLOOD_TYPE''),
      (''condition'', ''CONDITION''), (''dose'', ''DOSE''), (''drug'', ''DRUG''),
      (''injury'', ''INJURY''), (''medical_process'', ''MEDICAL_PROCESS''),
      (''statistics'', ''STATISTICS''), (''routing_number'', ''ROUTING_NUMBER''),
      (''corporate_action'', ''CORPORATE_ACTION''),
      (''financial_metric'', ''FINANCIAL_METRIC''), (''product'', ''PRODUCT''),
      (''trend'', ''TREND''), (''duration'', ''DURATION''),
      (''location_address_street'', ''LOCATION_ADDRESS_STREET''), (''all'', ''ALL''),
      (''sexuality'', ''SEXUALITY''), (''effect'', ''EFFECT''),
      (''project'', ''PROJECT''), (''organization_id'', ''ORGANIZATION_ID''),
      (''day'', ''DAY''), (''month'', ''MONTH'')]"

text \<open>
  An object literal inherits from \<^verbatim>\<open>Object.prototype\<close>. Both the \<^verbatim>\<open>in\<close> operator and a
  property read follow the prototype chain, so they also see the string-keyed properties
  of \<^verbatim>\<open>Object.prototype\<close> listed here; each of them holds a function or an object,
  hence a truthy value.
\<close>

definition Object_prototype_keys :: "string list" where
  "Object_prototype_keys =
     [''constructor'', ''__defineGetter__'', ''__defineSetter__'', ''hasOwnProperty'',
      ''__lookupGetter__'', ''__lookupSetter__'', ''isPrototypeOf'',
      ''propertyIsEnumerable'', ''toString'', ''valueOf'', ''__proto__'',
      ''toLocaleString'']"

datatype DetectEntities =
    EnumMember string       \<comment> \<open>\<^verbatim>\<open>DetectEntities.X\<close>, a member of the library's enumeration\<close>
  | PrototypeMember string  \<comment> \<open>the value of an inherited \<^verbatim>\<open>Object.prototype\<close> property\<close>

definition ENTITY_MAP_get :: "string \<Rightarrow> DetectEntities option" where
  \<comment> \<open>\<^verbatim>\<open>ENTITY_MAP[entity]\<close>; \<open>None\<close> is \<^verbatim>\<open>undefined\<close>\<close>
  "ENTITY_MAP_get entity =
     (case map_of ENTITY_MAP entity of
        Some m \<Rightarrow> Some (EnumMember m)
      | None \<Rightarrow>
          if entity \<in> set Object_prototype_keys then Some (PrototypeMember entity) else None)"

definition isValidEntity :: "string \<Rightarrow> bool" where
  \<comment> \<open>\<^verbatim>\<open>entity in ENTITY_MAP\<close>\<close>
  "isValidEntity entity \<longleftrightarrow>
     entity \<in> set (map fst ENTITY_MAP) \<or> entity \<in> set Object_prototype_keys"

definition getEntityEnum :: "string \<Rightarrow> thrown + DetectEntities" where
  "getEntityEnum entity =
     (case ENTITY_MAP_get entity of
        None \<Rightarrow> Inl (Error (''Invalid entity type: '' @ entity))
      | Some entityEnum \<Rightarrow> Inr entityEnum)"

section \<open>The client (src/client/types.ts, src/client/SkyflowMCP.ts)\<close>

text \<open>
  Property names are the source's. Where two object types of the source share a property
  name, the later record's fields carry a prefix: \<open>cfg_\<close> for \<^verbatim>\<open>SkyflowMCPConfig\<close>,
  \<open>o_\<close> for the \<^verbatim>\<open>Partial<SkyflowMCPConfig>\<close> of overrides, \<open>sdk_\<close> for the vault
  library's vault configuration, \<open>resp_\<close> for the library's responses, \<open>res_\<close> and
  \<open>reid_\<close> for the results of \<^verbatim>\<open>deidentify\<close> and \<^verbatim>\<open>reidentify\<close>.
\<close>

datatype SkyflowCredentials = Token string | ApiKey string

datatype TokenType = VAULT_TOKEN | ENTITY_UNIQUE_COUNTER | ENTITY_ONLY

datatype SkyflowTokenType = Sdk_VAULT_TOKEN | Sdk_ENTITY_UNIQUE_COUNTER | Sdk_ENTITY_ONLY

fun TOKEN_TYPE_MAP :: "TokenType \<Rightarrow> SkyflowTokenType" where
  "TOKEN_TYPE_MAP VAULT_TOKEN = Sdk_VAULT_TOKEN"
| "TOKEN_TYPE_MAP ENTITY_UNIQUE_COUNTER = Sdk_ENTITY_UNIQUE_COUNTER"
| "TOKEN_TYPE_MAP ENTITY_ONLY = Sdk_ENTITY_ONLY"

record SkyflowMCPOptions =
  defaultTokenType :: "TokenType option"
  defaultEntities :: "string list option"

record SkyflowMCPConfig =
  cfg_vaultId :: string
  cfg_vaultUrl :: string
  credentials :: SkyflowCredentials
  cfg_accountId :: "string option"
  cfg_workspaceId :: "string option"
  options :: "SkyflowMCPOptions option"

record DeidentifyOptions =
  tokenType :: "TokenType option"
  entities :: "string list option"

text \<open>
  \<^verbatim>\<open>WrapOptions\<close> and \<^verbatim>\<open>WrapWithProtectionOptions\<close> both extend \<^verbatim>\<open>DeidentifyOptions\<close>
  and both start with \<^verbatim>\<open>reidentifyOutput\<close>, so the second is written as an extension of
  the first.
\<close>

record WrapOptions = DeidentifyOptions +
  reidentifyOutput :: "bool option"

record DeidentifyResult =
  processedText :: string
  res_entities :: "jsval list option"
  wordCount :: "int option"
  charCount :: "int option"

record ReidentifyResult =
  reid_processedText :: string

text \<open>
  An observer callback returns nothing; it may throw, which is \<open>Some\<close> of what it threw.
\<close>

record WrapWithProtectionOptions = WrapOptions +
  reidentifyField :: "string option"
  onDeidentify :: "(DeidentifyResult \<Rightarrow> thrown option) option"
  onReidentify :: "(string \<Rightarrow> thrown option) option"

subsection \<open>The vault library (skyflow-node), an external collaborator\<close>

text \<open>
  The library is not part of the repository. The client hands it a text with
  \<^verbatim>\<open>DeidentifyTextOptions\<close> (the default of the token format and, when \<^verbatim>\<open>setEntities\<close>
  was called, the entities), or a text to reidentify; each call resolves with a response
  or rejects with a thrown value.
\<close>

record DeidentifyTextCall =
  request_text :: string
  tokenFormat :: SkyflowTokenType
  setEntities :: "DetectEntities list option"

record DeidentifyTextResponse =
  resp_processedText :: string
  resp_entities :: "jsval list option"
  resp_wordCount :: "int option"
  resp_charCount :: "int option"

record SkyflowVaultConfig =
  sdk_vaultId :: string
  sdk_clusterId :: string
  sdk_credentials :: SkyflowCredentials

record Skyflow =
  vaultConfigs :: "SkyflowVaultConfig list"
  deidentifyText :: "DeidentifyTextCall \<Rightarrow> thrown + DeidentifyTextResponse"
  reidentifyText :: "string \<Rightarrow> thrown + string"  \<comment> \<open>the response's \<^verbatim>\<open>processedText\<close>\<close>

record SkyflowMCP =
  skyflow :: Skyflow
  this_vaultId :: string
  this_config :: SkyflowMCPConfig

subsection \<open>Observable calls\<close>

text \<open>
  An asynchronous function of the source awaits its calls one after the other. Its model
  returns the calls it has made, in order, together with its outcome: \<open>Inl\<close> of the
  thrown value when the promise rejects, \<open>Inr\<close> of the value it resolves with.
\<close>

datatype event =
    ExtDeidentifyText DeidentifyTextCall
  | ExtReidentifyText string
  | Operation string
  | OnDeidentify DeidentifyResult
  | OnReidentify string

type_synonym 'a io = "event list \<times> (thrown + 'a)"

definition io_return :: "'a \<Rightarrow> 'a io" where
  "io_return x = ([], Inr x)"

definition io_call :: "event \<Rightarrow> thrown + 'a \<Rightarrow> 'a io" where
  \<comment> \<open>one call of a collaborator, with its outcome\<close>
  "io_call ev outcome = ([ev], outcome)"

definition io_bind :: "'a io \<Rightarrow> ('a \<Rightarrow> 'b io) \<Rightarrow> 'b io" where
  \<comment> \<open>\<^verbatim>\<open>const x = await m; ...\<close>: a rejection of \<open>m\<close> ends the function\<close>
  "io_bind m f =
     (case m of
        (tr, Inl e) \<Rightarrow> (tr, Inl e)
      | (tr, Inr x) \<Rightarrow> (case f x of (tr', r) \<Rightarrow> (tr @ tr', r)))"

definition notify :: "('a \<Rightarrow> thrown option) option \<Rightarrow> event \<Rightarrow> 'a \<Rightarrow> unit io" where
  \<comment> \<open>\<^verbatim>\<open>callback?.(x)\<close>\<close>
  "notify callback ev x =
     (case callback of
        None \<Rightarrow> io_return ()
      | Some f \<Rightarrow> io_call ev (case f x of None \<Rightarrow> Inr () | Some e \<Rightarrow> Inl e))"

fun map_throwing :: "('a \<Rightarrow> thrown + 'b) \<Rightarrow> 'a list \<Rightarrow> thrown + 'b list" where
  \<comment> \<open>\<^verbatim>\<open>xs.map(f)\<close> for an \<open>f\<close> that may throw: the first throw ends the map\<close>
  "map_throwing f [] = Inr []"
| "map_throwing f (x # xs) =
     (case f x of
        Inl e \<Rightarrow> Inl e
      | Inr y \<Rightarrow> (case map_throwing f xs of Inl e \<Rightarrow> Inl e | Inr ys \<Rightarrow> Inr (y # ys)))"

subsection \<open>\<^verbatim>\<open>SkyflowMCP.deidentify\<close> and \<^verbatim>\<open>SkyflowMCP.reidentify\<close>\<close>

definition deidentify_tokenType ::
  "SkyflowMCP \<Rightarrow> 'a DeidentifyOptions_scheme option \<Rightarrow> TokenType" where
  \<comment> \<open>\<^verbatim>\<open>options?.tokenType || this.config.options?.defaultTokenType || "VAULT_TOKEN"\<close>\<close>
  "deidentify_tokenType this opts =
     (case Option.bind opts tokenType of
        Some t \<Rightarrow> t
      | None \<Rightarrow>
          (case Option.bind (options (this_config this)) defaultTokenType of
             Some t \<Rightarrow> t
           | None \<Rightarrow> VAULT_TOKEN))"

definition deidentify_entities ::
  "SkyflowMCP \<Rightarrow> 'a DeidentifyOptions_scheme option \<Rightarrow> string list option" where
  \<comment> \<open>\<^verbatim>\<open>options?.entities || this.config.options?.defaultEntities\<close>: every array is truthy\<close>
  "deidentify_entities this opts =
     (case Option.bind opts entities of
        Some es \<Rightarrow> Some es
      | None \<Rightarrow> Option.bind (options (this_config this)) defaultEntities)"

definition deidentify_call ::
  "SkyflowMCP \<Rightarrow> string \<Rightarrow> 'a DeidentifyOptions_scheme option \<Rightarrow> thrown + DeidentifyTextCall" where
  \<comment> \<open>the \<^verbatim>\<open>try\<close> block up to the call of the library\<close>
  "deidentify_call this txt opts =
     (let tokenType = deidentify_tokenType this opts;
          entities = deidentify_entities this opts
      in case entities of
           None \<Rightarrow>
             Inr \<lparr>request_text = txt, tokenFormat = TOKEN_TYPE_MAP tokenType, setEntities = None\<rparr>
         | Some es \<Rightarrow>
             if length es > 0 then
               (case map_throwing getEntityEnum es of
                  Inl e \<Rightarrow> Inl e
                | Inr entityEnums \<Rightarrow>
                    Inr \<lparr>request_text = txt, tokenFormat = TOKEN_TYPE_MAP tokenType,
                         setEntities = Some entityEnums\<rparr>)
             else
               Inr \<lparr>request_text = txt, tokenFormat = TOKEN_TYPE_MAP tokenType, setEntities = None\<rparr>)"

definition deidentify_result :: "DeidentifyTextResponse \<Rightarrow> DeidentifyResult" where
  \<comment> \<open>"Build result": an array is truthy, so the entities are copied whenever present\<close>
  "deidentify_result response =
     \<lparr>processedText = resp_processedText response,
      res_entities = resp_entities response,
      wordCount = resp_wordCount response,
      charCount = resp_charCount response\<rparr>"

definition error_httpCode :: "(jsval \<times> jsval) option \<Rightarrow> int option" where
  \<comment> \<open>\<^verbatim>\<open>typeof httpCode === "number" ? httpCode : undefined\<close> of \<^verbatim>\<open>error.error?.http_code\<close>\<close>
  "error_httpCode p = (case p of Some (JNum n, d) \<Rightarrow> Some n | _ \<Rightarrow> None)"

definition error_details :: "(jsval \<times> jsval) option \<Rightarrow> jsval" where
  \<comment> \<open>\<^verbatim>\<open>error.error?.details\<close>\<close>
  "error_details p = (case p of Some (h, d) \<Rightarrow> d | None \<Rightarrow> JUndefined)"

fun deidentify_catch :: "thrown \<Rightarrow> thrown" where
  "deidentify_catch (SkyflowError msg p) =
     DeidentifyError msg (error_httpCode p) (error_details p) (Some (SkyflowError msg p))"
| "deidentify_catch (NonError v) =
     DeidentifyError ''Unknown deidentify error'' None JUndefined None"
| "deidentify_catch e = DeidentifyError (message e) None JUndefined (Some e)"

fun reidentify_catch :: "thrown \<Rightarrow> thrown" where
  "reidentify_catch (SkyflowError msg p) =
     ReidentifyError msg (error_httpCode p) (error_details p) (Some (SkyflowError msg p))"
| "reidentify_catch (NonError v) =
     ReidentifyError ''Unknown reidentify error'' None JUndefined None"
| "reidentify_catch e = ReidentifyError (message e) None JUndefined (Some e)"

definition io_catch :: "'a io \<Rightarrow> (thrown \<Rightarrow> thrown) \<Rightarrow> 'a io" where
  \<comment> \<open>\<^verbatim>\<open>try { ... } catch (error) { throw handler(error) }\<close>\<close>
  "io_catch m handler = (case m of (tr, Inl e) \<Rightarrow> (tr, Inl (handler e)) | (tr, Inr x) \<Rightarrow> (tr, Inr x))"

definition SkyflowMCP_deidentify ::
  "SkyflowMCP \<Rightarrow> string \<Rightarrow> 'a DeidentifyOptions_scheme option \<Rightarrow> DeidentifyResult io" where
  "SkyflowMCP_deidentify this txt opts =
     io_catch
       (io_bind ([], deidentify_call this txt opts) (\<lambda>call.
        io_bind (io_call (ExtDeidentifyText call) (deidentifyText (skyflow this) call)) (\<lambda>response.
        io_return (deidentify_result response))))
       deidentify_catch"

definition SkyflowMCP_reidentify :: "SkyflowMCP \<Rightarrow> string \<Rightarrow> ReidentifyResult io" where
  "SkyflowMCP_reidentify this txt =
     io_catch
       (io_bind (io_call (ExtReidentifyText txt) (reidentifyText (skyflow this) txt)) (\<lambda>response.
        io_return \<lparr>reid_processedText = response\<rparr>))
       reidentify_catch"

subsection \<open>\<^verbatim>\<open>SkyflowMCP.wrap\<close>\<close>

text \<open>
  \<open>SkyflowMCP_wrap_output\<close> is what the method does once the operation has returned
  \<open>result\<close> (from "Reidentify output if it's a string and reidentification is enabled").
\<close>

definition SkyflowMCP_wrap_output ::
  "SkyflowMCP \<Rightarrow> WrapOptions option \<Rightarrow> jsval \<Rightarrow> jsval io" where
  "SkyflowMCP_wrap_output this opts result =
     (let shouldReidentify = (Option.bind opts reidentifyOutput \<noteq> Some False) in
      if shouldReidentify \<and> typeof result = ''string'' then
        (case result of
           JStr s \<Rightarrow>
             io_bind (SkyflowMCP_reidentify this s) (\<lambda>r.
             io_return (JStr (reid_processedText r)))
         | _ \<Rightarrow> io_return result)
      else io_return result)"

definition SkyflowMCP_wrap ::
  "SkyflowMCP \<Rightarrow> string \<Rightarrow> (string \<Rightarrow> thrown + jsval) \<Rightarrow> WrapOptions option \<Rightarrow> jsval io" where
  "SkyflowMCP_wrap this input operation opts =
     io_bind (SkyflowMCP_deidentify this input opts) (\<lambda>d.
     let protectedInput = processedText d in
     io_bind (io_call (Operation protectedInput) (operation protectedInput)) (\<lambda>result.
     SkyflowMCP_wrap_output this opts result))"

section \<open>The protection envelope (src/middleware/wrap.ts)\<close>

text \<open>
  The function in two parts: \<open>wrapWithProtection_output\<close> is what it does once the
  operation has returned \<open>result\<close> (from "Skip reidentification if disabled" to the last
  \<^verbatim>\<open>return result\<close>); \<open>wrapWithProtection\<close> is the whole function.
\<close>

definition wrapWithProtection_output ::
  "SkyflowMCP \<Rightarrow> WrapWithProtectionOptions \<Rightarrow> jsval \<Rightarrow> jsval io" where
  "wrapWithProtection_output client opts result =
     (let reidentifyOutput = (case reidentifyOutput opts of None \<Rightarrow> True | Some b \<Rightarrow> b) in
      if \<not> reidentifyOutput then io_return result
      else
        (case result of
           JStr s \<Rightarrow>
             io_bind (SkyflowMCP_reidentify client s) (\<lambda>r.
             io_bind (notify (onReidentify opts) (OnReidentify (reid_processedText r))
                        (reid_processedText r)) (\<lambda>_.
             io_return (JStr (reid_processedText r))))
         | _ \<Rightarrow>
             if \<not> falsy (reidentifyField opts) \<and> typeof result = ''object'' \<and> result \<noteq> JNull then
               (case get_property result (the (reidentifyField opts)) of
                  JStr fieldValue \<Rightarrow>
                    io_bind (SkyflowMCP_reidentify client fieldValue) (\<lambda>r.
                    io_bind (notify (onReidentify opts) (OnReidentify (reid_processedText r))
                               (reid_processedText r)) (\<lambda>_.
                    io_return
                      (spread_with result (the (reidentifyField opts))
                         (JStr (reid_processedText r)))))
                | _ \<Rightarrow> io_return result)
             else io_return result))"

definition wrapWithProtection ::
  "SkyflowMCP \<Rightarrow> string \<Rightarrow> (string \<Rightarrow> thrown + jsval) \<Rightarrow> WrapWithProtectionOptions \<Rightarrow> jsval io" where
  "wrapWithProtection client input operation opts =
     (let deidentifyOptions = DeidentifyOptions.truncate opts in
      io_bind (SkyflowMCP_deidentify client input (Some deidentifyOptions)) (\<lambda>deidentifyResult.
      io_bind (notify (onDeidentify opts) (OnDeidentify deidentifyResult) deidentifyResult) (\<lambda>_.
      io_bind (io_call (Operation (processedText deidentifyResult))
                 (operation (processedText deidentifyResult))) (\<lambda>result.
      wrapWithProtection_output client opts result))))"

definition createProtectedWrapper ::
  "SkyflowMCP \<Rightarrow> string \<Rightarrow> (string \<Rightarrow> thrown + jsval) \<Rightarrow> WrapWithProtectionOptions option \<Rightarrow> jsval io" where
  \<comment> \<open>an omitted \<^verbatim>\<open>options\<close> takes the default \<^verbatim>\<open>{}\<close> of \<^verbatim>\<open>wrapWithProtection\<close>\<close>
  "createProtectedWrapper client input operation opts =
     wrapWithProtection client input operation
       (case opts of
          Some o' \<Rightarrow> o'
        | None \<Rightarrow>
            \<lparr>tokenType = None, entities = None, reidentifyOutput = None,
             reidentifyField = None, onDeidentify = None, onReidentify = None\<rparr>)"

section \<open>Construction (src/client/SkyflowMCP.ts)\<close>

definition SkyflowMCP_new ::
  "(SkyflowVaultConfig list \<Rightarrow> thrown + Skyflow) \<Rightarrow> SkyflowMCPConfig \<Rightarrow> thrown + SkyflowMCP" where
  \<comment> \<open>the constructor; \<open>new_Skyflow\<close> is the constructor of the vault library's client\<close>
  "SkyflowMCP_new new_Skyflow cfg =
     (let validation =
            validateVaultConfig
              \<lparr>p_vaultId = Some (cfg_vaultId cfg), p_vaultUrl = Some (cfg_vaultUrl cfg),
               p_accountId = cfg_accountId cfg, p_workspaceId = cfg_workspaceId cfg\<rparr>
      in
      if \<not> isValid validation \<or> config validation = None then
        Inl (ConfigurationError
               (if falsy (error validation) then ''Invalid configuration''
                else the (error validation))
               None)
      else
        (case new_Skyflow
                [\<lparr>sdk_vaultId = vaultId (the (config validation)),
                  sdk_clusterId = clusterId (the (config validation)),
                  sdk_credentials = credentials cfg\<rparr>] of
           Inl e \<Rightarrow>
             Inl (ConfigurationError ''Failed to initialize Skyflow SDK''
                    (if instanceof_Error e then Some e else None))
         | Inr sdk \<Rightarrow>
             Inr \<lparr>skyflow = sdk, this_vaultId = vaultId (the (config validation)),
                  this_config = cfg\<rparr>))"

record PartialConfig =
  o_vaultId :: "string option"
  o_vaultUrl :: "string option"
  o_credentials :: "SkyflowCredentials option"
  o_accountId :: "string option"
  o_workspaceId :: "string option"
  o_options :: "SkyflowMCPOptions option"

definition js_or :: "string option \<Rightarrow> string option \<Rightarrow> string option" where
  \<comment> \<open>\<^verbatim>\<open>a || b\<close> on values that are a string or \<^verbatim>\<open>undefined\<close>\<close>
  "js_or a b = (if falsy a then b else a)"

definition createFromEnv ::
  "(SkyflowVaultConfig list \<Rightarrow> thrown + Skyflow) \<Rightarrow> PartialConfig option \<Rightarrow>
   (string \<Rightarrow> string option) \<Rightarrow> thrown + SkyflowMCP" where
  \<comment> \<open>\<open>env\<close> is \<^verbatim>\<open>process.env\<close>\<close>
  "createFromEnv new_Skyflow overrides env =
     (let vaultId = js_or (Option.bind overrides o_vaultId) (env ''SKYFLOW_VAULT_ID'');
          vaultUrl = js_or (Option.bind overrides o_vaultUrl) (env ''SKYFLOW_VAULT_URL'');
          apiKey = env ''SKYFLOW_API_KEY'';
          bearerToken = env ''SKYFLOW_BEARER_TOKEN''
      in
      if falsy vaultId then
        Inl (ConfigurationError ''SKYFLOW_VAULT_ID environment variable is required'' None)
      else if falsy vaultUrl then
        Inl (ConfigurationError ''SKYFLOW_VAULT_URL environment variable is required'' None)
      else
        (case (case Option.bind overrides o_credentials of
                 Some c \<Rightarrow> Inr c
               | None \<Rightarrow>
                   if \<not> falsy bearerToken then Inr (Token (the bearerToken))
                   else if \<not> falsy apiKey then Inr (ApiKey (the apiKey))
                   else
                     Inl (ConfigurationError
                            ''Either SKYFLOW_BEARER_TOKEN or SKYFLOW_API_KEY environment variable is required''
                            None)) of
           Inl e \<Rightarrow> Inl e
         | Inr creds \<Rightarrow>
             SkyflowMCP_new new_Skyflow
               \<lparr>cfg_vaultId = the vaultId,
                cfg_vaultUrl = the vaultUrl,
                credentials = creds,
                cfg_accountId =
                  js_or (Option.bind overrides o_accountId) (env ''SKYFLOW_ACCOUNT_ID''),
                cfg_workspaceId =
                  js_or (Option.bind overrides o_workspaceId) (env ''SKYFLOW_WORKSPACE_ID''),
                options = Option.bind overrides o_options\<rparr>))"

section \<open>Notions used to state the properties\<close>

abbreviation not_dot :: "char \<Rightarrow> bool" where
  "not_dot \<equiv> (\<lambda>c. c \<noteq> CHR ''.'')"

text \<open>
  The labels of a string are its maximal runs of non-dot characters, as \<^verbatim>\<open>s.split(".")\<close>
  lists them. \<open>strip_scheme\<close> drops a scheme that starts a label when something is
  left after it. \<open>first_cluster_label\<close> picks the first non-empty label whose next
  label begins with \<^verbatim>\<open>vault\<close>, that is, the first occurrence of \<^verbatim>\<open>.vault\<close> that has a
  non-empty run of non-dot characters in front of it.
\<close>

fun split_dots :: "string \<Rightarrow> string list" where
  "split_dots [] = [[]]"
| "split_dots (c # cs) =
     (if c = CHR ''.'' then [] # split_dots cs
      else (c # hd (split_dots cs)) # tl (split_dots cs))"

definition strip_scheme :: "string \<Rightarrow> string" where
  "strip_scheme l =
     (if prefix ''https://'' l \<and> 8 < length l then drop 8 l
      else if prefix ''http://'' l \<and> 7 < length l then drop 7 l
      else l)"

fun first_cluster_label :: "string list \<Rightarrow> string option" where
  "first_cluster_label (l # v # ls) =
     (if l \<noteq> [] \<and> prefix ''vault'' v then Some (strip_scheme l)
      else first_cluster_label (v # ls))"
| "first_cluster_label _ = None"

text \<open>
  The reading "the run of non-dot characters immediately preceding the first occurrence
  of \<^verbatim>\<open>.vault\<close>, a leading scheme skipped": \<open>before_first_vault\<close> is the text in front
  of the first occurrence, \<open>run_before_first_vault\<close> the run that ends it.
\<close>

fun before_first_vault :: "string \<Rightarrow> string option" where
  "before_first_vault [] = None"
| "before_first_vault (c # cs) =
     (if prefix ''.vault'' (c # cs) then Some []
      else map_option ((#) c) (before_first_vault cs))"

definition run_before_first_vault :: "string \<Rightarrow> string option" where
  "run_before_first_vault s =
     map_option (\<lambda>pre. strip_scheme (rev (takeWhile not_dot (rev pre)))) (before_first_vault s)"

text \<open>The texts the caller's operation and the two vault calls were invoked with, in order.\<close>

fun operation_calls :: "event list \<Rightarrow> string list" where
  "operation_calls [] = []"
| "operation_calls (Operation s # evs) = s # operation_calls evs"
| "operation_calls (_ # evs) = operation_calls evs"

fun reidentify_calls :: "event list \<Rightarrow> string list" where
  "reidentify_calls [] = []"
| "reidentify_calls (ExtReidentifyText s # evs) = s # reidentify_calls evs"
| "reidentify_calls (_ # evs) = reidentify_calls evs"

fun deidentify_calls :: "event list \<Rightarrow> DeidentifyTextCall list" where
  "deidentify_calls [] = []"
| "deidentify_calls (ExtDeidentifyText c # evs) = c # deidentify_calls evs"
| "deidentify_calls (_ # evs) = deidentify_calls evs"

definition default_options :: WrapWithProtectionOptions where
  \<comment> \<open>\<^verbatim>\<open>{}\<close>\<close>
  "default_options =
     \<lparr>tokenType = None, entities = None, reidentifyOutput = None,
      reidentifyField = None, onDeidentify = None, onReidentify = None\<rparr>"

definition returns_normally :: "('a \<Rightarrow> thrown option) option \<Rightarrow> 'a \<Rightarrow> bool" where
  \<comment> \<open>an observer callback that is absent, or that returns without throwing when given \<open>x\<close>\<close>
  "returns_normally callback x = (case callback of None \<Rightarrow> True | Some f \<Rightarrow> f x = None)"

text \<open>
  The stubs of the unit tests: a vault whose \<^verbatim>\<open>deidentifyText\<close> answers every text with a
  token and whose \<^verbatim>\<open>reidentifyText\<close> answers with the original text, and a client on it.
\<close>

definition example_skyflow :: Skyflow where
  "example_skyflow =
     \<lparr>vaultConfigs =
        [\<lparr>sdk_vaultId = ''vault-123'', sdk_clusterId = ''abc123'',
          sdk_credentials = Token ''test-bearer-token''\<rparr>],
      deidentifyText =
        (\<lambda>call. Inr \<lparr>resp_processedText = ''[EMAIL_ADDRESS_abc123]'', resp_entities = None,
                       resp_wordCount = None, resp_charCount = None\<rparr>),
      reidentifyText = (\<lambda>txt. Inr ''john@example.com'')\<rparr>"

definition example_config :: SkyflowMCPConfig where
  "example_config =
     \<lparr>cfg_vaultId = ''vault-123'', cfg_vaultUrl = ''https://abc123.vault.skyflowapis.com'',
      credentials = Token ''test-bearer-token'', cfg_accountId = None,
      cfg_workspaceId = None, options = None\<rparr>"

definition example_client :: SkyflowMCP where
  "example_client =
     \<lparr>skyflow = example_skyflow, this_vaultId = ''vault-123'', this_config = example_config\<rparr>"

definition example_response :: DeidentifyTextResponse where
  "example_response = \<lparr>resp_processedText = ''[EMAIL_ADDRESS_abc123]'', resp_entities = None,
                       resp_wordCount = None, resp_charCount = None\<rparr>"

definition example_call :: DeidentifyTextCall where
  "example_call =
     \<lparr>request_text = ''john@example.com'', tokenFormat = Sdk_VAULT_TOKEN, setEntities = None\<rparr>"

definition failing_client :: "thrown \<Rightarrow> SkyflowMCP" where
  \<comment> \<open>the same client on a vault whose \<^verbatim>\<open>deidentifyText\<close> rejects with the given value\<close>
  "failing_client failure =
     example_client\<lparr>skyflow := example_skyflow\<lparr>deidentifyText := (\<lambda>call. Inl failure)\<rparr>\<rparr>"

text \<open>
  An environment in which every variable that \<^verbatim>\<open>createFromEnv\<close> reads is set, and a
  constructor of the vault client that accepts every vault configuration.
\<close>

definition example_env :: "string \<Rightarrow> string option" where
  "example_env =
     (\<lambda>k. None)
       (''SKYFLOW_VAULT_ID'' := Some ''env-vault-id'',
        ''SKYFLOW_VAULT_URL'' := Some ''https://envcluster.vault.skyflowapis.com'',
        ''SKYFLOW_API_KEY'' := Some ''env-api-key'',
        ''SKYFLOW_BEARER_TOKEN'' := Some ''env-bearer-token'')"

definition example_new_Skyflow :: "SkyflowVaultConfig list \<Rightarrow> thrown + Skyflow" where
  "example_new_Skyflow vcs = Inr (example_skyflow\<lparr>vaultConfigs := vcs\<rparr>)"

definition without_defaultEntities :: "SkyflowMCP \<Rightarrow> SkyflowMCP" where
  \<comment> \<open>the same client, configured without \<^verbatim>\<open>defaultEntities\<close>\<close>
  "without_defaultEntities this =
     this\<lparr>this_config :=
       (this_config this)\<lparr>options :=
          map_option (\<lambda>opts. opts\<lparr>defaultEntities := None\<rparr>) (options (this_config this))\<rparr>\<rparr>"

definition ssn_client :: SkyflowMCP where
  \<comment> \<open>the example client configured with \<^verbatim>\<open>defaultEntities: ["ssn"]\<close>\<close>
  "ssn_client =
     example_client\<lparr>this_config :=
       example_config\<lparr>options :=
          Some \<lparr>defaultTokenType = None, defaultEntities = Some [''ssn'']\<rparr>\<rparr>\<rparr>"

section \<open>The cluster identifier\<close>

lemma group_then_vault_short:
  "n < length (takeWhile not_dot s) \<Longrightarrow> group_then_vault n s = None"
proof (induction n)
  case 0
  show ?case by simp
next
  case (Suc n)
  let ?run = "takeWhile not_dot s" and ?rest = "dropWhile not_dot s"
  have s: "s = ?run @ ?rest" by simp
  have "drop (Suc n) s = drop (Suc n) ?run @ ?rest"
    using Suc.prems by (metis drop_append diff_is_0_eq' drop0 less_imp_le_nat s)
  moreover have "drop (Suc n) ?run \<noteq> []" using Suc.prems by simp
  moreover have "\<forall>c \<in> set (drop (Suc n) ?run). c \<noteq> CHR ''.''"
    by (auto dest!: in_set_dropD set_takeWhileD)
  ultimately have "\<not> prefix ''.vault'' (drop (Suc n) s)"
    by (cases "drop (Suc n) ?run") auto
  then show ?case using Suc by simp
qed

lemma match_label_eq:
  "match_label s =
     (if takeWhile not_dot s \<noteq> [] \<and> prefix ''.vault'' (dropWhile not_dot s)
      then Some (takeWhile not_dot s) else None)"
proof (cases "length (takeWhile not_dot s)")
  case 0
  then show ?thesis by (simp add: match_label_def)
next
  case (Suc n)
  let ?run = "takeWhile not_dot s" and ?rest = "dropWhile not_dot s"
  have s: "s = ?run @ ?rest" by simp
  have d: "drop (Suc n) s = ?rest" using Suc by (metis append_eq_conv_conj s)
  have t: "take (Suc n) s = ?run" using Suc by (metis append_eq_conv_conj s)
  have "group_then_vault n s = None" using Suc by (simp add: group_then_vault_short)
  then show ?thesis using Suc d t by (auto simp: match_label_def)
qed

lemma prefix_nodot_takeWhile:
  "\<forall>c \<in> set p. not_dot c \<Longrightarrow> prefix p (takeWhile not_dot s) = prefix p s"
proof (induction p arbitrary: s)
  case Nil
  show ?case by simp
next
  case (Cons a p)
  then show ?case by (cases s) auto
qed

lemma takeWhile_drop_nodot:
  assumes "prefix p s" and nodot: "\<forall>c \<in> set p. not_dot c"
  shows "takeWhile not_dot (drop (length p) s) = drop (length p) (takeWhile not_dot s)
       \<and> dropWhile not_dot (drop (length p) s) = dropWhile not_dot s"
proof -
  from assms obtain zs where s: "s = p @ zs" by (auto elim: prefixE)
  have "takeWhile not_dot s = p @ takeWhile not_dot zs" "dropWhile not_dot s = dropWhile not_dot zs"
    using nodot unfolding s by simp_all
  then show ?thesis unfolding s by simp
qed

lemma prefix_append_iff:
  "prefix (p @ q) s \<longleftrightarrow> prefix p s \<and> prefix q (drop (length p) s)"
proof
  assume "prefix (p @ q) s"
  then obtain zs where "s = (p @ q) @ zs" by (auto elim: prefixE)
  then show "prefix p s \<and> prefix q (drop (length p) s)" by simp
next
  assume a: "prefix p s \<and> prefix q (drop (length p) s)"
  then obtain zs where s: "s = p @ zs" by (auto elim: prefixE)
  with a obtain ys where "zs = q @ ys" by (auto elim: prefixE)
  with s show "prefix (p @ q) s" by simp
qed

lemma scheme_rests_eq:
  "scheme_rests s =
     (if prefix ''https://'' s then [drop 8 s]
      else if prefix ''http://'' s then [drop 7 s] else [])"
proof -
  have a: "prefix ''https://'' s \<longleftrightarrow>
      prefix ''http'' s \<and> prefix ''s'' (drop 4 s) \<and> prefix ''://'' (drop 5 s)"
    using prefix_append_iff[of "''http''" "''s://''" s]
      prefix_append_iff[of "''s''" "''://''" "drop 4 s"]
    by (simp add: eval_nat_numeral)
  have b: "prefix ''http://'' s \<longleftrightarrow> prefix ''http'' s \<and> prefix ''://'' (drop 4 s)"
    using prefix_append_iff[of "''http''" "''://''" s] by (simp add: eval_nat_numeral)
  have c: "prefix ''s'' (drop 4 s) \<Longrightarrow> \<not> prefix ''://'' (drop 4 s)"
    by (cases "drop 4 s") auto
  show ?thesis
    using c by (auto simp: scheme_rests_def lit_def a b eval_nat_numeral)
qed

lemma https_not_http: "prefix ''https://'' s \<Longrightarrow> \<not> prefix ''http://'' s"
  by (auto elim!: prefixE)

lemma match_here_eq:
  "match_here s =
     (if takeWhile not_dot s \<noteq> [] \<and> prefix ''.vault'' (dropWhile not_dot s)
      then Some (strip_scheme (takeWhile not_dot s)) else None)"
proof -
  let ?run = "takeWhile not_dot s" and ?rest = "dropWhile not_dot s"
  have t8: "prefix ''https://'' s \<Longrightarrow>
      takeWhile not_dot (drop 8 s) = drop 8 ?run \<and> dropWhile not_dot (drop 8 s) = ?rest"
    using takeWhile_drop_nodot[of "''https://''" s] by (simp add: eval_nat_numeral)
  have t7: "prefix ''http://'' s \<Longrightarrow>
      takeWhile not_dot (drop 7 s) = drop 7 ?run \<and> dropWhile not_dot (drop 7 s) = ?rest"
    using takeWhile_drop_nodot[of "''http://''" s] by (simp add: eval_nat_numeral)
  have p8: "prefix ''https://'' ?run = prefix ''https://'' s"
    by (rule prefix_nodot_takeWhile) simp
  have p7: "prefix ''http://'' ?run = prefix ''http://'' s"
    by (rule prefix_nodot_takeWhile) simp
  consider (a) "prefix ''https://'' s"
    | (b) "\<not> prefix ''https://'' s" "prefix ''http://'' s"
    | (c) "\<not> prefix ''https://'' s" "\<not> prefix ''http://'' s" by blast
  then show ?thesis
  proof cases
    case a
    then have "\<not> prefix ''http://'' s" by (rule https_not_http)
    then show ?thesis using a
      by (simp add: match_here_def scheme_rests_eq match_label_eq strip_scheme_def t8 p8 p7)
  next
    case b
    then show ?thesis
      by (simp add: match_here_def scheme_rests_eq match_label_eq strip_scheme_def t7 p8 p7)
  next
    case c
    then show ?thesis
      by (simp add: match_here_def scheme_rests_eq match_label_eq strip_scheme_def p8 p7)
  qed
qed

lemma split_dots_ne: "split_dots s \<noteq> []"
  by (cases s) auto

lemma hd_split_dots: "hd (split_dots s) = takeWhile not_dot s"
  by (induction s) auto

lemma tl_split_dots:
  "tl (split_dots s) = (case dropWhile not_dot s of [] \<Rightarrow> [] | c # r \<Rightarrow> split_dots r)"
  by (induction s) auto

lemma search_eq: "search s = first_cluster_label (split_dots s)"
proof (induction s)
  case Nil
  show ?case by (simp add: match_here_eq)
next
  case (Cons c cs)
  note IH = Cons.IH
  obtain l ls where sp: "split_dots cs = l # ls"
    using split_dots_ne[of cs] by (cases "split_dots cs") simp_all
  have l: "takeWhile not_dot cs = l" using hd_split_dots[of cs] sp by simp
  have ls: "ls = (case dropWhile not_dot cs of [] \<Rightarrow> [] | c # r \<Rightarrow> split_dots r)"
    using tl_split_dots[of cs] sp by simp
  show ?case
  proof (cases "c = CHR ''.''")
    case True
    have "match_here (c # cs) = None" using True by (simp add: match_here_eq)
    then have "search (c # cs) = search cs" by simp
    moreover have
      "first_cluster_label (split_dots (c # cs)) = first_cluster_label (split_dots cs)"
      using True sp by simp
    ultimately show ?thesis using IH by simp
  next
    case False
    have spc: "split_dots (c # cs) = (c # l) # ls" using False sp by simp
    have tw: "takeWhile not_dot (c # cs) = c # l"
      "dropWhile not_dot (c # cs) = dropWhile not_dot cs"
      using False l by simp_all
    show ?thesis
    proof (cases "dropWhile not_dot cs")
      case Nil
      have "ls = []" unfolding ls Nil by simp
      moreover have "match_here (c # cs) = None"
        unfolding match_here_eq tw Nil by simp
      ultimately show ?thesis using IH sp spc by simp
    next
      case (Cons d r)
      have d: "d = CHR ''.''" using hd_dropWhile[of not_dot cs] Cons by simp
      obtain v vs where v: "split_dots r = v # vs"
        using split_dots_ne[of r] by (cases "split_dots r") simp_all
      have lsv: "ls = v # vs" unfolding ls Cons using v by simp
      have "hd (split_dots r) = v" using v by simp
      then have pv: "prefix ''vault'' v = prefix ''vault'' r"
        using prefix_nodot_takeWhile[of "''vault''" r] by (simp add: hd_split_dots)
      have mh: "match_here (c # cs) =
          (if prefix ''vault'' r then Some (strip_scheme (c # l)) else None)"
        unfolding match_here_eq tw Cons d by simp
      have ih: "search cs = first_cluster_label (l # v # vs)"
        using IH sp lsv by simp
      show ?thesis
      proof (cases "prefix ''vault'' r")
        case True
        then show ?thesis using mh spc lsv pv by simp
      next
        case False
        then show ?thesis using mh spc lsv pv ih by simp
      qed
    qed
  qed
qed

lemma strip_scheme_nonempty: "l \<noteq> [] \<Longrightarrow> strip_scheme l \<noteq> []"
  by (simp add: strip_scheme_def)

lemma set_strip_scheme: "set (strip_scheme l) \<subseteq> set l"
  by (auto simp: strip_scheme_def dest: in_set_dropD)

lemma split_dots_nodot: "l \<in> set (split_dots s) \<Longrightarrow> CHR ''.'' \<notin> set l"
proof (induction s arbitrary: l)
  case Nil
  then show ?case by simp
next
  case (Cons c cs)
  have ne: "split_dots cs \<noteq> []" by (rule split_dots_ne)
  show ?case
  proof (cases "c = CHR ''.''")
    case True
    then show ?thesis using Cons by auto
  next
    case False
    from Cons.prems False have "l = c # hd (split_dots cs) \<or> l \<in> set (tl (split_dots cs))"
      by simp
    then show ?thesis
    proof
      assume "l = c # hd (split_dots cs)"
      moreover have "CHR ''.'' \<notin> set (hd (split_dots cs))"
        using Cons.IH[of "hd (split_dots cs)"] ne by simp
      ultimately show ?thesis using False by auto
    next
      assume "l \<in> set (tl (split_dots cs))"
      then have "l \<in> set (split_dots cs)" using ne by (meson list.set_sel(2))
      then show ?thesis by (rule Cons.IH)
    qed
  qed
qed

lemma first_cluster_label_Some:
  "first_cluster_label ls = Some g \<Longrightarrow> \<exists>l \<in> set ls. l \<noteq> [] \<and> g = strip_scheme l"
  by (induction ls rule: first_cluster_label.induct) (auto split: if_splits)

lemma extractClusterId_label:
  assumes "extractClusterId s = Some g"
  shows "g \<noteq> [] \<and> CHR ''.'' \<notin> set g"
proof -
  from assms have "first_cluster_label (split_dots s) = Some g"
    by (simp add: extractClusterId_def search_eq)
  then obtain l where l: "l \<in> set (split_dots s)" "l \<noteq> []" "g = strip_scheme l"
    using first_cluster_label_Some by blast
  have "CHR ''.'' \<notin> set l" using l(1) by (rule split_dots_nodot)
  then have "CHR ''.'' \<notin> set g" using set_strip_scheme[of l] l(3) by auto
  then show ?thesis using l strip_scheme_nonempty by simp
qed

lemma before_first_vault_decomp:
  "before_first_vault s = Some pre \<Longrightarrow>
     (\<exists>post. s = pre @ ''.vault'' @ post) \<and>
     (\<forall>i < length pre. \<not> prefix ''.vault'' (drop i s))"
proof (induction s arbitrary: pre)
  case Nil
  then show ?case by simp
next
  case (Cons c cs)
  show ?case
  proof (cases "prefix ''.vault'' (c # cs)")
    case True
    then have e: "pre = []" using Cons.prems by simp
    from True obtain post where "c # cs = ''.vault'' @ post" by (rule prefixE)
    then have "\<exists>post. c # cs = pre @ ''.vault'' @ post" unfolding e by simp
    then show ?thesis unfolding e by simp
  next
    case False
    then obtain pre' where p: "before_first_vault cs = Some pre'" "pre = c # pre'"
      using Cons.prems by auto
    from Cons.IH[OF p(1)] obtain post where
      post: "cs = pre' @ ''.vault'' @ post" and
      no: "\<forall>i < length pre'. \<not> prefix ''.vault'' (drop i cs)" by blast
    have "\<not> prefix ''.vault'' (drop i (c # cs))" if "i < length pre" for i
    proof (cases i)
      case 0
      then show ?thesis using False by simp
    next
      case (Suc j)
      then show ?thesis using that p(2) no by simp
    qed
    then have a: "\<forall>i < length pre. \<not> prefix ''.vault'' (drop i (c # cs))" by blast
    have e: "\<exists>post. c # cs = pre @ ''.vault'' @ post" unfolding p(2) post by simp
    show ?thesis using e a by (rule conjI)
  qed
qed

lemma length_takeWhile_less:
  "\<exists>x \<in> set xs. \<not> P x \<Longrightarrow> length (takeWhile P xs) < length xs"
  by (induction xs) auto

lemma before_first_vault_None:
  "before_first_vault s = None \<Longrightarrow> \<not> prefix ''.vault'' (drop i s)"
proof (induction s arbitrary: i)
  case Nil
  then show ?case by simp
next
  case (Cons c cs)
  then have n: "\<not> prefix ''.vault'' (c # cs)" "before_first_vault cs = None"
    by (auto split: if_splits)
  show ?case
  proof (cases i)
    case 0
    then show ?thesis using n by simp
  next
    case (Suc j)
    then show ?thesis using Cons.IH[OF n(2), of j] by simp
  qed
qed

lemma dropWhile_is_drop: "dropWhile P s = drop (length (takeWhile P s)) s"
  by (induction s) auto

lemma search_None:
  "(\<And>i. \<not> prefix ''.vault'' (drop i s)) \<Longrightarrow> search s = None"
proof (induction s)
  case Nil
  then show ?case by (simp add: match_here_eq)
next
  case (Cons c cs)
  have "\<not> prefix ''.vault'' (dropWhile not_dot (c # cs))"
    unfolding dropWhile_is_drop[of not_dot "c # cs"] by (rule Cons.prems)
  then have m: "match_here (c # cs) = None" by (simp add: match_here_eq)
  have "\<not> prefix ''.vault'' (drop i cs)" for i
    using Cons.prems[of "Suc i"] by simp
  then have "search cs = None" by (rule Cons.IH)
  then show ?case using m by simp
qed

lemma search_first_occurrence:
  assumes "before_first_vault s = Some pre"
    and "rev (takeWhile not_dot (rev pre)) \<noteq> []"
  shows "search s = Some (strip_scheme (rev (takeWhile not_dot (rev pre))))"
  using assms
proof (induction s arbitrary: pre)
  case Nil
  then show ?case by simp
next
  case (Cons c cs)
  let ?run = "\<lambda>p. rev (takeWhile not_dot (rev p))"
  from before_first_vault_decomp[OF Cons.prems(1)] obtain post where
    s: "c # cs = pre @ ''.vault'' @ post" and
    no: "\<forall>i < length pre. \<not> prefix ''.vault'' (drop i (c # cs))" by blast
  have ne: "pre \<noteq> []" using Cons.prems(2) by auto
  then obtain pre' where pre: "pre = c # pre'" using s by (cases pre) auto
  then have cs: "cs = pre' @ ''.vault'' @ post" using s by simp
  have "0 < length pre" using ne by simp
  with no have "\<not> prefix ''.vault'' (drop 0 (c # cs))" by blast
  then have np: "\<not> prefix ''.vault'' (c # cs)" by simp
  then have b': "before_first_vault cs = Some pre'" using Cons.prems(1) pre by auto
  show ?case
  proof (cases "\<forall>x \<in> set pre. not_dot x")
    case True
    have tr: "takeWhile not_dot (rev pre) = rev pre"
      by (rule takeWhile_eq_all_conv[THEN iffD2]) (use True in simp)
    have r: "?run pre = pre" unfolding tr by simp
    have tw: "takeWhile not_dot (c # cs) = pre"
      unfolding s using True by (simp add: takeWhile_append2)
    have dw: "dropWhile not_dot (c # cs) = ''.vault'' @ post"
      unfolding s using True by (simp add: dropWhile_append2)
    have "match_here (c # cs) = Some (strip_scheme pre)"
      unfolding match_here_eq tw dw using ne by simp
    then show ?thesis using r by simp
  next
    case False
    then have dot: "CHR ''.'' \<in> set pre" by auto
    have tl: "length (takeWhile not_dot (c # cs)) < length pre"
    proof -
      have "takeWhile not_dot (c # cs) = takeWhile not_dot pre"
        unfolding s using dot by (simp add: takeWhile_append1)
      moreover have "length (takeWhile not_dot pre) < length pre"
        by (rule length_takeWhile_less) (use dot in auto)
      ultimately show ?thesis by simp
    qed
    have "\<not> prefix ''.vault'' (dropWhile not_dot (c # cs))"
      unfolding dropWhile_is_drop[of not_dot "c # cs"] using no tl by blast
    then have m: "match_here (c # cs) = None" by (simp add: match_here_eq)
    have run': "?run pre' = ?run pre"
    proof (cases "c = CHR ''.''")
      case True
      have "takeWhile not_dot (rev pre' @ [c]) = takeWhile not_dot (rev pre')"
        by (rule takeWhile_tail) (use True in simp)
      then show ?thesis unfolding pre by simp
    next
      case False
      then have "CHR ''.'' \<in> set (rev pre')" using dot pre by auto
      then have "takeWhile not_dot (rev pre' @ [c]) = takeWhile not_dot (rev pre')"
        by (rule takeWhile_append1) simp
      then show ?thesis unfolding pre by simp
    qed
    have "search cs = Some (strip_scheme (?run pre'))"
      using Cons.IH[OF b'] Cons.prems(2) run' by simp
    then show ?thesis using m run' by simp
  qed
qed

lemma invalid_format_message:
  "sublist ''Invalid vaultUrl format''
     ''Invalid vaultUrl format. Expected format: https://<clusterId>.vault.skyflowapis.com''"
  "sublist ''https://<clusterId>.vault.''
     ''Invalid vaultUrl format. Expected format: https://<clusterId>.vault.skyflowapis.com''"
  by code_simp+

lemma validateVaultConfig_valid:
  assumes "v \<noteq> []" "u \<noteq> []" "extractClusterId u = Some c"
  shows "validateVaultConfig
           \<lparr>p_vaultId = Some v, p_vaultUrl = Some u, p_accountId = a, p_workspaceId = w\<rparr> =
         \<lparr>isValid = True, error = None,
          config = Some \<lparr>vaultId = v, vaultUrl = u, clusterId = c,
                         accountId = a, workspaceId = w\<rparr>\<rparr>"
proof -
  have "c \<noteq> []" using extractClusterId_label[of u c] assms(3) by simp
  then show ?thesis using assms by (simp add: validateVaultConfig_def falsy_def)
qed

text \<open>
  Claim C5. \<^verbatim>\<open>extractClusterId\<close> is a total function of its argument alone (the model
  has no state to read or change, and a call with the same string gives the same answer
  however often it is made): for every string it returns either \<^verbatim>\<open>null\<close> or a non-empty
  label, which contains no dot; it returns \<^verbatim>\<open>abc123\<close> for the three spellings of the
  example URL and \<^verbatim>\<open>null\<close> for \<^verbatim>\<open>https://invalid.com\<close> and for the empty string.
\<close>

theorem extractClusterId_total:
  "(extractClusterId s = None \<or>
      (\<exists>l. extractClusterId s = Some l \<and> l \<noteq> [] \<and> CHR ''.'' \<notin> set l))
   \<and> extractClusterId ''https://abc123.vault.skyflowapis.com'' = Some ''abc123''
   \<and> extractClusterId ''abc123.vault.skyflowapis.com'' = Some ''abc123''
   \<and> extractClusterId ''http://abc123.vault.skyflowapis.com'' = Some ''abc123''
   \<and> extractClusterId ''https://invalid.com'' = None
   \<and> extractClusterId [] = None"
proof -
  have "extractClusterId s = None \<or>
      (\<exists>l. extractClusterId s = Some l \<and> l \<noteq> [] \<and> CHR ''.'' \<notin> set l)"
    using extractClusterId_label[of s] by (cases "extractClusterId s") simp_all
  moreover have "extractClusterId ''https://abc123.vault.skyflowapis.com'' = Some ''abc123''"
    by code_simp
  moreover have "extractClusterId ''abc123.vault.skyflowapis.com'' = Some ''abc123''"
    by code_simp
  moreover have "extractClusterId ''http://abc123.vault.skyflowapis.com'' = Some ''abc123''"
    by code_simp
  moreover have "extractClusterId ''https://invalid.com'' = None"
    by code_simp
  moreover have "extractClusterId [] = None"
    by code_simp
  ultimately show ?thesis by (intro conjI)
qed

theorem extractClusterId_total_witness:
  "extractClusterId ''https://ebfc9bee4242.vault.skyflowapis.com'' = Some ''ebfc9bee4242''
   \<and> extractClusterId ''invalid'' = None"
proof -
  have a: "extractClusterId ''https://ebfc9bee4242.vault.skyflowapis.com'' = Some ''ebfc9bee4242''"
    by code_simp
  have b: "extractClusterId ''invalid'' = None"
    by code_simp
  from extractClusterId_total[of "''invalid''"] a b show ?thesis by (intro conjI)
qed

text \<open>
  Claim C6. \<^verbatim>\<open>validateVaultConfig\<close> is decided by four cases, in this order: a missing or
  empty \<^verbatim>\<open>vaultId\<close> gives \<^verbatim>\<open>isValid = false\<close> with the error "vaultId is required"; else
  a missing or empty \<^verbatim>\<open>vaultUrl\<close> gives the error "vaultUrl is required"; else a URL
  for which \<^verbatim>\<open>extractClusterId\<close> returns \<^verbatim>\<open>null\<close> gives an error that contains
  "Invalid vaultUrl format" and the expected shape; else the result is valid and its
  configuration holds the two identifiers, the extracted cluster id, and \<^verbatim>\<open>accountId\<close>
  and \<^verbatim>\<open>workspaceId\<close> as they were given (\<open>None\<close>, that is \<^verbatim>\<open>undefined\<close>, when absent).
  The four cases are exhaustive: \<^verbatim>\<open>extractClusterId\<close> never returns an empty label.
\<close>

theorem validateVaultConfig_characterization:
  "(falsy (p_vaultId params) \<longrightarrow>
      validateVaultConfig params =
        \<lparr>isValid = False, error = Some ''vaultId is required'', config = None\<rparr>)
   \<and> (\<not> falsy (p_vaultId params) \<and> falsy (p_vaultUrl params) \<longrightarrow>
      validateVaultConfig params =
        \<lparr>isValid = False, error = Some ''vaultUrl is required'', config = None\<rparr>)
   \<and> (\<forall>v u. p_vaultId params = Some v \<and> v \<noteq> [] \<and> p_vaultUrl params = Some u \<and> u \<noteq> [] \<and>
         extractClusterId u = None \<longrightarrow>
      validateVaultConfig params =
        \<lparr>isValid = False,
         error = Some ''Invalid vaultUrl format. Expected format: https://<clusterId>.vault.skyflowapis.com'',
         config = None\<rparr>)
   \<and> sublist ''Invalid vaultUrl format''
        ''Invalid vaultUrl format. Expected format: https://<clusterId>.vault.skyflowapis.com''
   \<and> sublist ''https://<clusterId>.vault.''
        ''Invalid vaultUrl format. Expected format: https://<clusterId>.vault.skyflowapis.com''
   \<and> (\<forall>v u c. p_vaultId params = Some v \<and> v \<noteq> [] \<and> p_vaultUrl params = Some u \<and> u \<noteq> [] \<and>
         extractClusterId u = Some c \<longrightarrow>
      validateVaultConfig params =
        \<lparr>isValid = True, error = None,
         config = Some \<lparr>vaultId = v, vaultUrl = u, clusterId = c,
                        accountId = p_accountId params, workspaceId = p_workspaceId params\<rparr>\<rparr>)"
proof -
  let ?r = "validateVaultConfig params"
  have 1: "falsy (p_vaultId params) \<longrightarrow>
      ?r = \<lparr>isValid = False, error = Some ''vaultId is required'', config = None\<rparr>"
    by (simp add: validateVaultConfig_def)
  have 2: "\<not> falsy (p_vaultId params) \<and> falsy (p_vaultUrl params) \<longrightarrow>
      ?r = \<lparr>isValid = False, error = Some ''vaultUrl is required'', config = None\<rparr>"
    by (simp add: validateVaultConfig_def)
  have 3: "\<forall>v u. p_vaultId params = Some v \<and> v \<noteq> [] \<and> p_vaultUrl params = Some u \<and> u \<noteq> [] \<and>
         extractClusterId u = None \<longrightarrow>
      ?r = \<lparr>isValid = False,
         error = Some ''Invalid vaultUrl format. Expected format: https://<clusterId>.vault.skyflowapis.com'',
         config = None\<rparr>"
    by (simp add: validateVaultConfig_def falsy_def)
  have 4: "\<forall>v u c. p_vaultId params = Some v \<and> v \<noteq> [] \<and> p_vaultUrl params = Some u \<and> u \<noteq> [] \<and>
         extractClusterId u = Some c \<longrightarrow>
      ?r = \<lparr>isValid = True, error = None,
         config = Some \<lparr>vaultId = v, vaultUrl = u, clusterId = c,
                        accountId = p_accountId params, workspaceId = p_workspaceId params\<rparr>\<rparr>"
  proof (intro allI impI)
    fix v u c
    assume a: "p_vaultId params = Some v \<and> v \<noteq> [] \<and> p_vaultUrl params = Some u \<and> u \<noteq> [] \<and>
         extractClusterId u = Some c"
    then have "extractClusterId u = Some c" by simp
    then have "c \<noteq> []" using extractClusterId_label[of u c] by simp
    then show "?r = \<lparr>isValid = True, error = None,
         config = Some \<lparr>vaultId = v, vaultUrl = u, clusterId = c,
                        accountId = p_accountId params, workspaceId = p_workspaceId params\<rparr>\<rparr>"
      using a by (simp add: validateVaultConfig_def falsy_def)
  qed
  show ?thesis
    by (intro conjI) (rule 1 2 3 4 invalid_format_message)+
qed

theorem validateVaultConfig_characterization_witness:
  "validateVaultConfig
     \<lparr>p_vaultId = Some ''vault-123'',
      p_vaultUrl = Some ''https://abc123.vault.skyflowapis.com'',
      p_accountId = None, p_workspaceId = None\<rparr> =
   \<lparr>isValid = True, error = None,
    config = Some \<lparr>vaultId = ''vault-123'',
                   vaultUrl = ''https://abc123.vault.skyflowapis.com'',
                   clusterId = ''abc123'', accountId = None, workspaceId = None\<rparr>\<rparr>"
proof -
  let ?p = "\<lparr>p_vaultId = Some ''vault-123'',
      p_vaultUrl = Some ''https://abc123.vault.skyflowapis.com'',
      p_accountId = None, p_workspaceId = None\<rparr>"
  have e: "extractClusterId ''https://abc123.vault.skyflowapis.com'' = Some ''abc123''"
    by code_simp
  have "\<forall>v u c. p_vaultId ?p = Some v \<and> v \<noteq> [] \<and> p_vaultUrl ?p = Some u \<and> u \<noteq> [] \<and>
         extractClusterId u = Some c \<longrightarrow>
      validateVaultConfig ?p =
        \<lparr>isValid = True, error = None,
         config = Some \<lparr>vaultId = v, vaultUrl = u, clusterId = c,
                        accountId = p_accountId ?p, workspaceId = p_workspaceId ?p\<rparr>\<rparr>"
    using validateVaultConfig_characterization[of ?p] by (elim conjE)
  from this[rule_format, of "''vault-123''" "''https://abc123.vault.skyflowapis.com''" "''abc123''"] e
  show ?thesis by simp
qed

text \<open>
  Claim C9, as stated, at \<^verbatim>\<open>.vault.a.vault\<close>: the first occurrence of \<^verbatim>\<open>.vault\<close> is at
  the start of the string and the run of non-dot characters in front of it is empty,
  but \<^verbatim>\<open>extractClusterId\<close> returns \<^verbatim>\<open>a\<close>, the run in front of the second occurrence.
\<close>

theorem extractClusterId_first_occurrence_counterexample:
  "before_first_vault ''.vault.a.vault'' = Some []
   \<and> run_before_first_vault ''.vault.a.vault'' = Some []
   \<and> extractClusterId ''.vault.a.vault'' = Some ''a''"
  by code_simp

text \<open>
  Claim C9, amended. For every string, \<^verbatim>\<open>extractClusterId\<close> returns the first non-empty
  label (run of non-dot characters) whose next label begins with \<^verbatim>\<open>vault\<close>, that is,
  the run in front of the first occurrence of \<^verbatim>\<open>.vault\<close> that has a non-empty run in
  front of it, without a scheme that starts the run when something is left after it,
  and \<^verbatim>\<open>null\<close> when there is no such label. Neither need \<^verbatim>\<open>vault\<close> be a whole label nor
  the cluster label the first one: \<^verbatim>\<open>foo.vaultbar.com\<close> gives \<^verbatim>\<open>foo\<close> and
  \<^verbatim>\<open>https://a.b.vault.com\<close> gives \<^verbatim>\<open>b\<close>, and \<^verbatim>\<open>validateVaultConfig\<close> accepts both URLs
  with any non-empty vault id. In particular the answer is \<^verbatim>\<open>null\<close> when \<^verbatim>\<open>.vault\<close> does
  not occur, and it is the run in front of the first occurrence of \<^verbatim>\<open>.vault\<close> whenever
  that run is not empty.
\<close>

theorem extractClusterId_first_label:
  "extractClusterId s = first_cluster_label (split_dots s)
   \<and> extractClusterId ''foo.vaultbar.com'' = Some ''foo''
   \<and> extractClusterId ''https://a.b.vault.com'' = Some ''b''
   \<and> (v \<noteq> [] \<longrightarrow>
        validateVaultConfig
          \<lparr>p_vaultId = Some v, p_vaultUrl = Some ''foo.vaultbar.com'',
           p_accountId = a, p_workspaceId = w\<rparr> =
        \<lparr>isValid = True, error = None,
         config = Some \<lparr>vaultId = v, vaultUrl = ''foo.vaultbar.com'', clusterId = ''foo'',
                        accountId = a, workspaceId = w\<rparr>\<rparr>
      \<and> validateVaultConfig
          \<lparr>p_vaultId = Some v, p_vaultUrl = Some ''https://a.b.vault.com'',
           p_accountId = a, p_workspaceId = w\<rparr> =
        \<lparr>isValid = True, error = None,
         config = Some \<lparr>vaultId = v, vaultUrl = ''https://a.b.vault.com'', clusterId = ''b'',
                        accountId = a, workspaceId = w\<rparr>\<rparr>)
   \<and> (before_first_vault s = None \<longrightarrow> extractClusterId s = None)
   \<and> (\<forall>pre. before_first_vault s = Some pre \<and> rev (takeWhile not_dot (rev pre)) \<noteq> [] \<longrightarrow>
         extractClusterId s = run_before_first_vault s)"
proof -
  have 1: "extractClusterId s = first_cluster_label (split_dots s)"
    by (simp add: extractClusterId_def search_eq)
  have 2: "extractClusterId ''foo.vaultbar.com'' = Some ''foo''"
    by code_simp
  have 3: "extractClusterId ''https://a.b.vault.com'' = Some ''b''"
    by code_simp
  have 4: "v \<noteq> [] \<longrightarrow>
        validateVaultConfig
          \<lparr>p_vaultId = Some v, p_vaultUrl = Some ''foo.vaultbar.com'',
           p_accountId = a, p_workspaceId = w\<rparr> =
        \<lparr>isValid = True, error = None,
         config = Some \<lparr>vaultId = v, vaultUrl = ''foo.vaultbar.com'', clusterId = ''foo'',
                        accountId = a, workspaceId = w\<rparr>\<rparr>
      \<and> validateVaultConfig
          \<lparr>p_vaultId = Some v, p_vaultUrl = Some ''https://a.b.vault.com'',
           p_accountId = a, p_workspaceId = w\<rparr> =
        \<lparr>isValid = True, error = None,
         config = Some \<lparr>vaultId = v, vaultUrl = ''https://a.b.vault.com'', clusterId = ''b'',
                        accountId = a, workspaceId = w\<rparr>\<rparr>"
  proof
    assume v: "v \<noteq> []"
    have n1: "''foo.vaultbar.com'' \<noteq> []" and n2: "''https://a.b.vault.com'' \<noteq> []"
      by simp_all
    show "validateVaultConfig
          \<lparr>p_vaultId = Some v, p_vaultUrl = Some ''foo.vaultbar.com'',
           p_accountId = a, p_workspaceId = w\<rparr> =
        \<lparr>isValid = True, error = None,
         config = Some \<lparr>vaultId = v, vaultUrl = ''foo.vaultbar.com'', clusterId = ''foo'',
                        accountId = a, workspaceId = w\<rparr>\<rparr>
      \<and> validateVaultConfig
          \<lparr>p_vaultId = Some v, p_vaultUrl = Some ''https://a.b.vault.com'',
           p_accountId = a, p_workspaceId = w\<rparr> =
        \<lparr>isValid = True, error = None,
         config = Some \<lparr>vaultId = v, vaultUrl = ''https://a.b.vault.com'', clusterId = ''b'',
                        accountId = a, workspaceId = w\<rparr>\<rparr>"
      by (intro conjI) (rule validateVaultConfig_valid[OF v n1 2] validateVaultConfig_valid[OF v n2 3])+
  qed
  have 5: "before_first_vault s = None \<longrightarrow> extractClusterId s = None"
  proof
    assume "before_first_vault s = None"
    then have "\<not> prefix ''.vault'' (drop i s)" for i by (rule before_first_vault_None)
    then show "extractClusterId s = None" unfolding extractClusterId_def by (rule search_None)
  qed
  have 6: "\<forall>pre. before_first_vault s = Some pre \<and> rev (takeWhile not_dot (rev pre)) \<noteq> [] \<longrightarrow>
         extractClusterId s = run_before_first_vault s"
  proof (intro allI impI)
    fix pre
    assume a: "before_first_vault s = Some pre \<and> rev (takeWhile not_dot (rev pre)) \<noteq> []"
    then have "search s = Some (strip_scheme (rev (takeWhile not_dot (rev pre))))"
      using search_first_occurrence[of s pre] by blast
    then show "extractClusterId s = run_before_first_vault s"
      using a by (simp add: extractClusterId_def run_before_first_vault_def)
  qed
  show ?thesis
    by (intro conjI) (rule 1 2 3 4 5 6)+
qed

theorem extractClusterId_first_label_witness:
  "extractClusterId ''x.y.vault-eu.example'' = Some ''y''
   \<and> before_first_vault ''x.y.vault-eu.example'' = Some ''x.y''
   \<and> extractClusterId ''x.y.vault-eu.example'' = run_before_first_vault ''x.y.vault-eu.example''
   \<and> isValid (validateVaultConfig
        \<lparr>p_vaultId = Some ''vault-123'', p_vaultUrl = Some ''https://a.b.vault.com'',
         p_accountId = None, p_workspaceId = None\<rparr>)"
proof -
  note t = extractClusterId_first_label[of "''x.y.vault-eu.example''" "''vault-123''" None None]
  have l: "first_cluster_label (split_dots ''x.y.vault-eu.example'') = Some ''y''"
    by code_simp
  have 1: "extractClusterId ''x.y.vault-eu.example'' = Some ''y''"
    using conjunct1[OF t] l by (rule trans)
  have b: "before_first_vault ''x.y.vault-eu.example'' = Some ''x.y''"
    by code_simp
  have r: "rev (takeWhile not_dot (rev ''x.y'')) \<noteq> []"
    by simp
  from t have "\<forall>pre. before_first_vault ''x.y.vault-eu.example'' = Some pre \<and>
        rev (takeWhile not_dot (rev pre)) \<noteq> [] \<longrightarrow>
      extractClusterId ''x.y.vault-eu.example'' = run_before_first_vault ''x.y.vault-eu.example''"
    by (elim conjE)
  then have 3: "extractClusterId ''x.y.vault-eu.example'' =
      run_before_first_vault ''x.y.vault-eu.example''"
    using b r by blast
  have n: "''vault-123'' \<noteq> []" by simp
  from t have "''vault-123'' \<noteq> [] \<longrightarrow>
        validateVaultConfig
          \<lparr>p_vaultId = Some ''vault-123'', p_vaultUrl = Some ''foo.vaultbar.com'',
           p_accountId = None, p_workspaceId = None\<rparr> =
        \<lparr>isValid = True, error = None,
         config = Some \<lparr>vaultId = ''vault-123'', vaultUrl = ''foo.vaultbar.com'',
                        clusterId = ''foo'', accountId = None, workspaceId = None\<rparr>\<rparr>
      \<and> validateVaultConfig
          \<lparr>p_vaultId = Some ''vault-123'', p_vaultUrl = Some ''https://a.b.vault.com'',
           p_accountId = None, p_workspaceId = None\<rparr> =
        \<lparr>isValid = True, error = None,
         config = Some \<lparr>vaultId = ''vault-123'', vaultUrl = ''https://a.b.vault.com'',
                        clusterId = ''b'', accountId = None, workspaceId = None\<rparr>\<rparr>"
    by (elim conjE)
  then have "validateVaultConfig
          \<lparr>p_vaultId = Some ''vault-123'', p_vaultUrl = Some ''https://a.b.vault.com'',
           p_accountId = None, p_workspaceId = None\<rparr> =
        \<lparr>isValid = True, error = None,
         config = Some \<lparr>vaultId = ''vault-123'', vaultUrl = ''https://a.b.vault.com'',
                        clusterId = ''b'', accountId = None, workspaceId = None\<rparr>\<rparr>"
    using n by blast
  then have 4: "isValid (validateVaultConfig
        \<lparr>p_vaultId = Some ''vault-123'', p_vaultUrl = Some ''https://a.b.vault.com'',
         p_accountId = None, p_workspaceId = None\<rparr>)"
    by (simp only: ValidationResult.simps)
  from 1 b 3 4 show ?thesis by (intro conjI)
qed

section \<open>The protection envelope\<close>

lemma SkyflowMCP_deidentify_eq:
  "SkyflowMCP_deidentify this txt opts =
     (case deidentify_call this txt opts of
        Inl e \<Rightarrow> ([], Inl (deidentify_catch e))
      | Inr call \<Rightarrow>
          ([ExtDeidentifyText call],
           case deidentifyText (skyflow this) call of
             Inl e \<Rightarrow> Inl (deidentify_catch e)
           | Inr response \<Rightarrow> Inr (deidentify_result response)))"
  by (simp add: SkyflowMCP_deidentify_def io_catch_def io_bind_def io_call_def io_return_def
      split: sum.splits)

lemma SkyflowMCP_reidentify_eq:
  "SkyflowMCP_reidentify this txt =
     ([ExtReidentifyText txt],
      case reidentifyText (skyflow this) txt of
        Inl e \<Rightarrow> Inl (reidentify_catch e)
      | Inr response \<Rightarrow> Inr \<lparr>reid_processedText = response\<rparr>)"
  by (simp add: SkyflowMCP_reidentify_def io_catch_def io_bind_def io_call_def io_return_def
      split: sum.splits)

lemma deidentify_call_cong:
  "Option.bind opts tokenType = Option.bind opts' tokenType \<Longrightarrow>
   Option.bind opts entities = Option.bind opts' entities \<Longrightarrow>
   deidentify_call this txt opts = deidentify_call this txt opts'"
  by (simp add: deidentify_call_def deidentify_tokenType_def deidentify_entities_def)

lemma deidentify_call_truncate:
  "deidentify_call this txt (Some (DeidentifyOptions.truncate opts)) = deidentify_call this txt (Some opts)"
  by (rule deidentify_call_cong) (simp_all add: DeidentifyOptions.truncate_def)

lemma io_bind_Inr: "io_bind (tr, Inr x) f = (tr @ fst (f x), snd (f x))"
  by (simp add: io_bind_def split: prod.splits)

lemma io_bind_Inl: "io_bind (tr, Inl e) f = (tr, Inl e)"
  by (simp add: io_bind_def)

lemma wrapWithProtection_eq:
  assumes call: "deidentify_call client input (Some opts) = Inr call"
    and resp: "deidentifyText (skyflow client) call = Inr response"
    and obs: "returns_normally (onDeidentify opts) (deidentify_result response)"
  shows "wrapWithProtection client input operation opts =
     io_bind
       ([ExtDeidentifyText call] @
        (case onDeidentify opts of None \<Rightarrow> [] | Some f \<Rightarrow> [OnDeidentify (deidentify_result response)]) @
        [Operation (resp_processedText response)],
        operation (resp_processedText response))
       (wrapWithProtection_output client opts)"
proof -
  have d: "SkyflowMCP_deidentify client input (Some (DeidentifyOptions.truncate opts)) =
      ([ExtDeidentifyText call], Inr (deidentify_result response))"
    by (simp add: SkyflowMCP_deidentify_eq deidentify_call_truncate call resp)
  have n: "notify (onDeidentify opts) (OnDeidentify (deidentify_result response)) (deidentify_result response) =
      ((case onDeidentify opts of None \<Rightarrow> [] | Some f \<Rightarrow> [OnDeidentify (deidentify_result response)]), Inr ())"
    using obs by (auto simp: notify_def returns_normally_def io_return_def io_call_def split: option.splits)
  have p: "processedText (deidentify_result response) = resp_processedText response"
    by (simp add: deidentify_result_def)
  show ?thesis
    unfolding wrapWithProtection_def Let_def d n p io_bind_Inr
    by (cases "operation (resp_processedText response)")
       (simp_all add: io_bind_def io_call_def split: prod.splits)
qed

lemma SkyflowMCP_wrap_eq:
  assumes call: "deidentify_call this input opts = Inr call"
    and resp: "deidentifyText (skyflow this) call = Inr response"
  shows "SkyflowMCP_wrap this input operation opts =
     io_bind
       ([ExtDeidentifyText call, Operation (resp_processedText response)],
        operation (resp_processedText response))
       (SkyflowMCP_wrap_output this opts)"
proof -
  have d: "SkyflowMCP_deidentify this input opts =
      ([ExtDeidentifyText call], Inr (deidentify_result response))"
    by (simp add: SkyflowMCP_deidentify_eq call resp)
  have p: "processedText (deidentify_result response) = resp_processedText response"
    by (simp add: deidentify_result_def)
  show ?thesis
    unfolding SkyflowMCP_wrap_def Let_def d p io_bind_Inr
    by (cases "operation (resp_processedText response)")
       (simp_all add: io_bind_def io_call_def split: prod.splits)
qed

lemma operation_calls_append: "operation_calls (xs @ ys) = operation_calls xs @ operation_calls ys"
  by (induction xs rule: operation_calls.induct) simp_all

lemma reidentify_calls_append: "reidentify_calls (xs @ ys) = reidentify_calls xs @ reidentify_calls ys"
  by (induction xs rule: reidentify_calls.induct) simp_all

lemma observer_trace [simp]:
  "reidentify_calls (case cb of None \<Rightarrow> [] | Some f \<Rightarrow> [OnDeidentify x]) = []"
  "operation_calls (case cb of None \<Rightarrow> [] | Some f \<Rightarrow> [OnDeidentify x]) = []"
  "reidentify_calls (case cb' of None \<Rightarrow> [] | Some f \<Rightarrow> [OnReidentify y]) = []"
  "operation_calls (case cb' of None \<Rightarrow> [] | Some f \<Rightarrow> [OnReidentify y]) = []"
  by (cases cb; cases cb'; simp)+

lemma notify_trace:
  "operation_calls (fst (notify cb (OnReidentify x) y)) = []"
  "reidentify_calls (fst (notify cb (OnReidentify x) y)) = []"
  "operation_calls (fst (notify cb' (OnDeidentify x') y')) = []"
  "reidentify_calls (fst (notify cb' (OnDeidentify x') y')) = []"
  by (simp_all add: notify_def io_return_def io_call_def split: option.splits)

lemma io_return_trace [simp]: "fst (io_return x) = []" "snd (io_return x) = Inr x"
  by (simp_all add: io_return_def)

lemma output_reidentify_then:
  "operation_calls (fst (io_bind (SkyflowMCP_reidentify client s) (\<lambda>r.
       io_bind (notify cb (OnReidentify (reid_processedText r)) (reid_processedText r)) (\<lambda>_. io_return (g r))))) = []"
  "reidentify_calls (fst (io_bind (SkyflowMCP_reidentify client s) (\<lambda>r.
       io_bind (notify cb (OnReidentify (reid_processedText r)) (reid_processedText r)) (\<lambda>_. io_return (g r))))) = [s]"
  by (simp_all add: SkyflowMCP_reidentify_eq io_bind_def io_return_def notify_def io_call_def
      split: sum.splits option.splits prod.splits)

lemma typeof_string: "typeof v = ''string'' \<longleftrightarrow> (\<exists>s. v = JStr s)"
  by (cases v) simp_all

lemma typeof_object: "typeof v = ''object'' \<and> v \<noteq> JNull \<longleftrightarrow> (\<exists>ps. v = JObj ps)"
  by (cases v) simp_all

lemma output_operation_calls:
  "operation_calls (fst (wrapWithProtection_output client opts result)) = []"
  by (simp add: wrapWithProtection_output_def Let_def output_reidentify_then
      split: jsval.splits)

lemma output_reidentify_calls:
  "reidentify_calls (fst (wrapWithProtection_output client opts result)) =
     (if reidentifyOutput opts = Some False then []
      else case result of
             JStr s \<Rightarrow> [s]
           | JObj ps \<Rightarrow>
               (if falsy (reidentifyField opts) then []
                else case get_property result (the (reidentifyField opts)) of
                       JStr v \<Rightarrow> [v] | _ \<Rightarrow> [])
           | _ \<Rightarrow> [])"
  by (cases "reidentifyOutput opts")
     (simp_all add: wrapWithProtection_output_def Let_def output_reidentify_then
      split: jsval.splits option.splits)

lemma output_unchanged:
  assumes "\<not> (reidentifyOutput opts \<noteq> Some False \<and>
      (typeof result = ''string'' \<or>
       (\<not> falsy (reidentifyField opts) \<and> typeof result = ''object'' \<and> result \<noteq> JNull \<and>
        typeof (get_property result (the (reidentifyField opts))) = ''string'')))"
  shows "wrapWithProtection_output client opts result = ([], Inr result)"
  using assms
  by (cases "reidentifyOutput opts"; cases result)
     (auto simp: wrapWithProtection_output_def Let_def io_return_def typeof_string
      split: jsval.splits option.splits)

lemma reidentify_then_return:
  "io_bind (SkyflowMCP_reidentify client s) (\<lambda>r. io_return (g r)) =
     ([ExtReidentifyText s],
      case reidentifyText (skyflow client) s of
        Inl e \<Rightarrow> Inl (reidentify_catch e)
      | Inr t \<Rightarrow> Inr (g \<lparr>reid_processedText = t\<rparr>))"
  by (simp add: SkyflowMCP_reidentify_eq io_bind_def io_return_def split: sum.splits)

lemma wrap_output_string:
  "Option.bind opts reidentifyOutput \<noteq> Some False \<Longrightarrow>
   SkyflowMCP_wrap_output this opts (JStr s) =
     ([ExtReidentifyText s],
      case reidentifyText (skyflow this) s of
        Inl e \<Rightarrow> Inl (reidentify_catch e)
      | Inr t \<Rightarrow> Inr (JStr t))"
  by (simp add: SkyflowMCP_wrap_output_def reidentify_then_return split: sum.splits)

lemma wrap_output_unchanged:
  "\<not> (Option.bind opts reidentifyOutput \<noteq> Some False \<and> typeof result = ''string'') \<Longrightarrow>
   SkyflowMCP_wrap_output this opts result = ([], Inr result)"
  by (auto simp: SkyflowMCP_wrap_output_def io_return_def)

lemma wrap_output_operation_calls:
  "operation_calls (fst (SkyflowMCP_wrap_output this opts result)) = []"
  by (cases result)
     (simp_all add: SkyflowMCP_wrap_output_def Let_def reidentify_then_return)

lemma wrap_output_reidentify_calls:
  "reidentify_calls (fst (SkyflowMCP_wrap_output this opts result)) =
     (if Option.bind opts reidentifyOutput \<noteq> Some False
      then (case result of JStr s \<Rightarrow> [s] | _ \<Rightarrow> []) else [])"
  by (cases result)
     (simp_all add: SkyflowMCP_wrap_output_def Let_def reidentify_then_return)

lemma output_string:
  "reidentifyOutput opts \<noteq> Some False \<Longrightarrow> returns_normally (onReidentify opts) t \<Longrightarrow>
   reidentifyText (skyflow client) s = Inr t \<Longrightarrow>
   wrapWithProtection_output client opts (JStr s) =
     (ExtReidentifyText s # (case onReidentify opts of None \<Rightarrow> [] | Some f \<Rightarrow> [OnReidentify t]),
      Inr (JStr t))"
  by (cases "reidentifyOutput opts")
     (auto simp: wrapWithProtection_output_def SkyflowMCP_reidentify_eq io_bind_def io_return_def
        notify_def io_call_def returns_normally_def split: option.splits)

lemma output_field:
  "reidentifyOutput opts \<noteq> Some False \<Longrightarrow> reidentifyField opts = Some f \<Longrightarrow> f \<noteq> [] \<Longrightarrow>
   map_of ps f = Some (JStr s) \<Longrightarrow>
   returns_normally (onReidentify opts) t \<Longrightarrow>
   reidentifyText (skyflow client) s = Inr t \<Longrightarrow>
   wrapWithProtection_output client opts (JObj ps) =
     (ExtReidentifyText s # (case onReidentify opts of None \<Rightarrow> [] | Some f \<Rightarrow> [OnReidentify t]),
      Inr (JObj (AList.update f (JStr t) ps)))"
  by (cases "reidentifyOutput opts")
     (auto simp: wrapWithProtection_output_def SkyflowMCP_reidentify_eq io_bind_def io_return_def
        notify_def io_call_def returns_normally_def falsy_def split: option.splits)

lemma deidentify_call_default:
  "deidentify_call client input (Some default_options) = deidentify_call client input (None :: DeidentifyOptions option)"
  by (rule deidentify_call_cong) (simp_all add: default_options_def)

lemma deidentify_call_None:
  "deidentify_call client input (None :: WrapOptions option) = deidentify_call client input (None :: DeidentifyOptions option)"
  by (rule deidentify_call_cong) simp_all

text \<open>
  Claim C1. Let the vault call that \<^verbatim>\<open>deidentify\<close> makes for the input under the default
  options succeed with \<open>response\<close>. Then \<^verbatim>\<open>wrapWithProtection\<close> with the options \<^verbatim>\<open>{}\<close>
  and \<^verbatim>\<open>SkyflowMCP.wrap\<close> without options each invoke the operation exactly once, with
  exactly the \<^verbatim>\<open>processedText\<close> of the response. When the operation returns a string,
  each calls the vault's \<^verbatim>\<open>reidentifyText\<close> exactly once, with that string, and when that
  call resolves each returns its \<^verbatim>\<open>processedText\<close> in place of the string; the three
  calls are made in this order and no other call is made.
\<close>

theorem envelope_default_path:
  assumes call: "deidentify_call client input (None :: DeidentifyOptions option) = Inr call"
    and resp: "deidentifyText (skyflow client) call = Inr response"
  shows
    "operation_calls (fst (wrapWithProtection client input operation default_options)) =
       [resp_processedText response]
     \<and> operation_calls (fst (SkyflowMCP_wrap client input operation None)) =
       [resp_processedText response]
     \<and> (\<forall>s. operation (resp_processedText response) = Inr (JStr s) \<longrightarrow>
          reidentify_calls (fst (wrapWithProtection client input operation default_options)) = [s]
        \<and> reidentify_calls (fst (SkyflowMCP_wrap client input operation None)) = [s]
        \<and> (\<forall>restored. reidentifyText (skyflow client) s = Inr restored \<longrightarrow>
             wrapWithProtection client input operation default_options =
               ([ExtDeidentifyText call, Operation (resp_processedText response),
                 ExtReidentifyText s], Inr (JStr restored))
           \<and> SkyflowMCP_wrap client input operation None =
               ([ExtDeidentifyText call, Operation (resp_processedText response),
                 ExtReidentifyText s], Inr (JStr restored))))"
proof -
  let ?p = "resp_processedText response"
  have obs: "returns_normally (onDeidentify default_options) (deidentify_result response)"
    by (simp add: returns_normally_def default_options_def)
  have w: "wrapWithProtection client input operation default_options =
      io_bind ([ExtDeidentifyText call, Operation ?p], operation ?p)
        (wrapWithProtection_output client default_options)"
  proof -
    have c: "deidentify_call client input (Some default_options) = Inr call"
      by (simp add: deidentify_call_default call)
    have od: "onDeidentify default_options = None" by (simp add: default_options_def)
    show ?thesis using wrapWithProtection_eq[OF c resp obs, where operation = operation] by (simp add: od)
  qed
  have m: "SkyflowMCP_wrap client input operation None =
      io_bind ([ExtDeidentifyText call, Operation ?p], operation ?p)
        (SkyflowMCP_wrap_output client None)"
  proof -
    have c: "deidentify_call client input (None :: WrapOptions option) = Inr call"
      by (simp add: deidentify_call_None call)
    show ?thesis using SkyflowMCP_wrap_eq[OF c resp, where operation = operation] by simp
  qed
  have 1: "operation_calls (fst (wrapWithProtection client input operation default_options)) = [?p]"
    unfolding w
    by (cases "operation ?p")
       (simp_all add: io_bind_Inl io_bind_Inr operation_calls_append output_operation_calls)
  have 2: "operation_calls (fst (SkyflowMCP_wrap client input operation None)) = [?p]"
    unfolding m
    by (cases "operation ?p")
       (simp_all add: io_bind_Inl io_bind_Inr operation_calls_append wrap_output_operation_calls)
  have 3: "reidentify_calls (fst (wrapWithProtection client input operation default_options)) = [s]
        \<and> reidentify_calls (fst (SkyflowMCP_wrap client input operation None)) = [s]
        \<and> (\<forall>restored. reidentifyText (skyflow client) s = Inr restored \<longrightarrow>
             wrapWithProtection client input operation default_options =
               ([ExtDeidentifyText call, Operation ?p, ExtReidentifyText s], Inr (JStr restored))
           \<and> SkyflowMCP_wrap client input operation None =
               ([ExtDeidentifyText call, Operation ?p, ExtReidentifyText s], Inr (JStr restored)))"
    if op: "operation ?p = Inr (JStr s)" for s
  proof -
    have ro: "reidentifyOutput default_options \<noteq> Some False" "onReidentify default_options = None"
      by (simp_all add: default_options_def)
    have o: "wrapWithProtection_output client default_options (JStr s) =
        ([ExtReidentifyText s],
         case reidentifyText (skyflow client) s of
           Inl e \<Rightarrow> Inl (reidentify_catch e) | Inr t \<Rightarrow> Inr (JStr t))"
      using ro
      by (auto simp: wrapWithProtection_output_def notify_def io_bind_def io_return_def
          SkyflowMCP_reidentify_eq split: prod.splits sum.splits option.splits)
    have o': "SkyflowMCP_wrap_output client None (JStr s) =
        ([ExtReidentifyText s],
         case reidentifyText (skyflow client) s of
           Inl e \<Rightarrow> Inl (reidentify_catch e) | Inr t \<Rightarrow> Inr (JStr t))"
      by (rule wrap_output_string) simp
    show ?thesis
      unfolding w m op io_bind_Inr o o'
      by simp
  qed
  show ?thesis using 1 2 3 by blast
qed

lemma example_call_eq:
  "deidentify_call example_client ''john@example.com'' (None :: DeidentifyOptions option) = Inr example_call"
  by (simp add: deidentify_call_def deidentify_tokenType_def deidentify_entities_def
      example_client_def example_config_def example_call_def)

lemma example_response_eq:
  "deidentifyText (skyflow example_client) call = Inr example_response"
  by (simp add: example_client_def example_skyflow_def example_response_def)

lemma example_restore_eq:
  "reidentifyText (skyflow example_client) txt = Inr ''john@example.com''"
  by (simp add: example_client_def example_skyflow_def)

text \<open>
  The stubbed example: protecting \<^verbatim>\<open>john@example.com\<close> with an operation that echoes its
  input calls the operation with the token text and returns \<^verbatim>\<open>john@example.com\<close>.
\<close>

theorem envelope_default_path_witness:
  "wrapWithProtection example_client ''john@example.com'' (\<lambda>s. Inr (JStr s)) default_options =
     ([ExtDeidentifyText example_call, Operation ''[EMAIL_ADDRESS_abc123]'',
       ExtReidentifyText ''[EMAIL_ADDRESS_abc123]''], Inr (JStr ''john@example.com''))
   \<and> SkyflowMCP_wrap example_client ''john@example.com'' (\<lambda>s. Inr (JStr s)) None =
     ([ExtDeidentifyText example_call, Operation ''[EMAIL_ADDRESS_abc123]'',
       ExtReidentifyText ''[EMAIL_ADDRESS_abc123]''], Inr (JStr ''john@example.com''))"
proof -
  have p: "resp_processedText example_response = ''[EMAIL_ADDRESS_abc123]''"
    by (simp add: example_response_def)
  note t = envelope_default_path[OF example_call_eq example_response_eq,
      where operation = "\<lambda>s. Inr (JStr s)", unfolded p]
  from t have "\<forall>restored. reidentifyText (skyflow example_client) ''[EMAIL_ADDRESS_abc123]'' = Inr restored \<longrightarrow>
       wrapWithProtection example_client ''john@example.com'' (\<lambda>s. Inr (JStr s)) default_options =
         ([ExtDeidentifyText example_call, Operation ''[EMAIL_ADDRESS_abc123]'',
           ExtReidentifyText ''[EMAIL_ADDRESS_abc123]''], Inr (JStr restored))
     \<and> SkyflowMCP_wrap example_client ''john@example.com'' (\<lambda>s. Inr (JStr s)) None =
         ([ExtDeidentifyText example_call, Operation ''[EMAIL_ADDRESS_abc123]'',
           ExtReidentifyText ''[EMAIL_ADDRESS_abc123]''], Inr (JStr restored))"
    by blast
  then show ?thesis using example_restore_eq[of "''[EMAIL_ADDRESS_abc123]''"] by blast
qed

lemma deidentify_catch_props:
  "name (deidentify_catch failure) = ''DeidentifyError''"
  "code (deidentify_catch failure) = ''DEIDENTIFY_ERROR''"
  "instanceof_Error failure \<Longrightarrow> cause (deidentify_catch failure) = Some failure"
  "instanceof_Error failure \<Longrightarrow> message (deidentify_catch failure) = message failure"
  "httpCode (deidentify_catch (SkyflowError msg (Some (JNum n, d)))) = Some n"
  "details (deidentify_catch (SkyflowError msg (Some (h, d)))) = d"
  by (cases failure; simp add: DeidentifyError_def error_httpCode_def error_details_def)+

lemma wrapWithProtection_deidentify_fails:
  assumes "deidentify_call client input (Some opts) = Inr call"
    and "deidentifyText (skyflow client) call = Inl failure"
  shows "wrapWithProtection client input operation opts =
     ([ExtDeidentifyText call], Inl (deidentify_catch failure))"
  using assms
  by (simp add: wrapWithProtection_def SkyflowMCP_deidentify_eq deidentify_call_truncate io_bind_Inl)

lemma SkyflowMCP_wrap_deidentify_fails:
  assumes "deidentify_call this input opts = Inr call"
    and "deidentifyText (skyflow this) call = Inl failure"
  shows "SkyflowMCP_wrap this input operation opts =
     ([ExtDeidentifyText call], Inl (deidentify_catch failure))"
  using assms
  by (simp add: SkyflowMCP_wrap_def SkyflowMCP_deidentify_eq io_bind_Inl)

text \<open>
  Claim C2, amended. If the vault's \<^verbatim>\<open>deidentifyText\<close> rejects with \<open>failure\<close>, then
  \<^verbatim>\<open>wrapWithProtection\<close> and \<^verbatim>\<open>SkyflowMCP.wrap\<close> reject with a \<^verbatim>\<open>DeidentifyError\<close> (code
  \<^verbatim>\<open>DEIDENTIFY_ERROR\<close>) and never invoke the operation. The error carries the numeric
  \<^verbatim>\<open>http_code\<close> and the \<^verbatim>\<open>details\<close> of a \<^verbatim>\<open>SkyflowError\<close>; it has the message of the
  failure and the failure itself as its cause whenever the failure is an \<^verbatim>\<open>Error\<close>
  object.
\<close>

theorem deidentify_failure_rejects:
  assumes fails: "deidentifyText (skyflow client) call = Inl failure"
  shows
    "(deidentify_call client input (Some opts) = Inr call \<longrightarrow>
        wrapWithProtection client input operation opts =
          ([ExtDeidentifyText call], Inl (deidentify_catch failure))
      \<and> operation_calls (fst (wrapWithProtection client input operation opts)) = [])
     \<and> (deidentify_call client input wopts = Inr call \<longrightarrow>
        SkyflowMCP_wrap client input operation wopts =
          ([ExtDeidentifyText call], Inl (deidentify_catch failure))
      \<and> operation_calls (fst (SkyflowMCP_wrap client input operation wopts)) = [])
     \<and> name (deidentify_catch failure) = ''DeidentifyError''
     \<and> code (deidentify_catch failure) = ''DEIDENTIFY_ERROR''
     \<and> (instanceof_Error failure \<longrightarrow>
          cause (deidentify_catch failure) = Some failure
        \<and> message (deidentify_catch failure) = message failure)
     \<and> (\<forall>msg n d. failure = SkyflowError msg (Some (JNum n, d)) \<longrightarrow>
          httpCode (deidentify_catch failure) = Some n
        \<and> details (deidentify_catch failure) = d)"
proof -
  have 1: "deidentify_call client input (Some opts) = Inr call \<longrightarrow>
        wrapWithProtection client input operation opts =
          ([ExtDeidentifyText call], Inl (deidentify_catch failure))
      \<and> operation_calls (fst (wrapWithProtection client input operation opts)) = []"
    using wrapWithProtection_deidentify_fails[OF _ fails, of input opts operation] by simp
  have 2: "deidentify_call client input wopts = Inr call \<longrightarrow>
        SkyflowMCP_wrap client input operation wopts =
          ([ExtDeidentifyText call], Inl (deidentify_catch failure))
      \<and> operation_calls (fst (SkyflowMCP_wrap client input operation wopts)) = []"
    using SkyflowMCP_wrap_deidentify_fails[OF _ fails, of input wopts operation] by simp
  have 3: "\<forall>msg n d. failure = SkyflowError msg (Some (JNum n, d)) \<longrightarrow>
          httpCode (deidentify_catch failure) = Some n
        \<and> details (deidentify_catch failure) = d"
    by (auto simp: DeidentifyError_def error_httpCode_def error_details_def)
  show ?thesis
    using 1 2 3 deidentify_catch_props(1-4)[of failure] by blast
qed

text \<open>A vault that rejects with a \<^verbatim>\<open>SkyflowError\<close> carrying status 401 and details.\<close>

theorem deidentify_failure_rejects_witness:
  "wrapWithProtection
     (failing_client (SkyflowError ''Unauthorized'' (Some (JNum 401, JObj [(''reason'', JStr ''Unauthorized'')]))))
     ''john@example.com'' (\<lambda>s. Inr (JStr s)) default_options =
     ([ExtDeidentifyText example_call],
      Inl (SkyflowMCPError ''DeidentifyError'' ''DEIDENTIFY_ERROR'' ''Unauthorized''
             (Some (SkyflowError ''Unauthorized'' (Some (JNum 401, JObj [(''reason'', JStr ''Unauthorized'')]))))
             (Some 401) (JObj [(''reason'', JStr ''Unauthorized'')])))"
proof -
  let ?f = "SkyflowError ''Unauthorized'' (Some (JNum 401, JObj [(''reason'', JStr ''Unauthorized'')]))"
  have c: "deidentify_call (failing_client ?f) ''john@example.com'' (Some default_options) = Inr example_call"
    by (simp add: deidentify_call_def deidentify_tokenType_def deidentify_entities_def
        failing_client_def example_client_def example_config_def example_call_def
        default_options_def)
  have f: "deidentifyText (skyflow (failing_client ?f)) example_call = Inl ?f"
    by (simp add: failing_client_def example_client_def)
  have d: "deidentify_catch ?f =
      SkyflowMCPError ''DeidentifyError'' ''DEIDENTIFY_ERROR'' ''Unauthorized'' (Some ?f)
        (Some 401) (JObj [(''reason'', JStr ''Unauthorized'')])"
    by (simp add: DeidentifyError_def error_httpCode_def error_details_def)
  from deidentify_failure_rejects[OF f, of "''john@example.com''" default_options "\<lambda>s. Inr (JStr s)" None] c
  have "wrapWithProtection (failing_client ?f) ''john@example.com'' (\<lambda>s. Inr (JStr s)) default_options =
      ([ExtDeidentifyText example_call], Inl (deidentify_catch ?f))"
    by blast
  then show ?thesis unfolding d .
qed

text \<open>
  Claim C2, as stated, at a vault call that rejects with the string \<^verbatim>\<open>"boom"\<close>, which is
  no \<^verbatim>\<open>Error\<close> object: the \<^verbatim>\<open>DeidentifyError\<close> has the message "Unknown deidentify error"
  and no cause, so the original failure is not attached.
\<close>

theorem deidentify_failure_cause_counterexample:
  "deidentifyText (skyflow (failing_client (NonError (JStr ''boom'')))) example_call =
     Inl (NonError (JStr ''boom''))
   \<and> wrapWithProtection (failing_client (NonError (JStr ''boom''))) ''john@example.com''
       (\<lambda>s. Inr (JStr s)) default_options =
     ([ExtDeidentifyText example_call],
      Inl (SkyflowMCPError ''DeidentifyError'' ''DEIDENTIFY_ERROR'' ''Unknown deidentify error''
             None None JUndefined))"
proof -
  let ?f = "NonError (JStr ''boom'')"
  have c: "deidentify_call (failing_client ?f) ''john@example.com'' (Some default_options) = Inr example_call"
    by (simp add: deidentify_call_def deidentify_tokenType_def deidentify_entities_def
        failing_client_def example_client_def example_config_def example_call_def
        default_options_def)
  have f: "deidentifyText (skyflow (failing_client ?f)) example_call = Inl ?f"
    by (simp add: failing_client_def example_client_def)
  have d: "deidentify_catch ?f =
      SkyflowMCPError ''DeidentifyError'' ''DEIDENTIFY_ERROR'' ''Unknown deidentify error''
        None None JUndefined"
    by (simp add: DeidentifyError_def)
  show ?thesis
    using wrapWithProtection_deidentify_fails[OF c f, of "\<lambda>s. Inr (JStr s)"] f
    unfolding d by (intro conjI)
qed

text \<open>
  Claim C3, amended. Let the vault's \<^verbatim>\<open>deidentifyText\<close> succeed, the \<^verbatim>\<open>onDeidentify\<close>
  observer (if any) return, and the operation return \<open>result\<close>. Then
  \<^verbatim>\<open>wrapWithProtection\<close> calls \<^verbatim>\<open>reidentifyText\<close> if and only if \<^verbatim>\<open>reidentifyOutput\<close> is
  not \<^verbatim>\<open>false\<close> and either the result is a string, or \<^verbatim>\<open>reidentifyField\<close> is a non-empty
  name, the result is a non-null object and its property of that name holds a string;
  \<^verbatim>\<open>SkyflowMCP.wrap\<close> calls it if and only if \<^verbatim>\<open>reidentifyOutput\<close> is not \<^verbatim>\<open>false\<close> and
  the result is a string. Either calls it at most once, and when it is not called the
  envelope resolves with the operation's result unchanged.
\<close>

theorem reidentify_decision:
  assumes resp: "deidentifyText (skyflow client) call = Inr response"
    and op: "operation (resp_processedText response) = Inr result"
  shows
    "(deidentify_call client input (Some opts) = Inr call \<and>
      returns_normally (onDeidentify opts) (deidentify_result response) \<longrightarrow>
        (reidentify_calls (fst (wrapWithProtection client input operation opts)) \<noteq> [] \<longleftrightarrow>
           reidentifyOutput opts \<noteq> Some False \<and>
           (typeof result = ''string'' \<or>
            (\<not> falsy (reidentifyField opts) \<and> typeof result = ''object'' \<and> result \<noteq> JNull \<and>
             typeof (get_property result (the (reidentifyField opts))) = ''string'')))
      \<and> length (reidentify_calls (fst (wrapWithProtection client input operation opts))) \<le> 1
      \<and> (reidentify_calls (fst (wrapWithProtection client input operation opts)) = [] \<longrightarrow>
           snd (wrapWithProtection client input operation opts) = Inr result))
     \<and> (deidentify_call client input wopts = Inr call \<longrightarrow>
        (reidentify_calls (fst (SkyflowMCP_wrap client input operation wopts)) \<noteq> [] \<longleftrightarrow>
           Option.bind wopts reidentifyOutput \<noteq> Some False \<and> typeof result = ''string'')
      \<and> length (reidentify_calls (fst (SkyflowMCP_wrap client input operation wopts))) \<le> 1
      \<and> (reidentify_calls (fst (SkyflowMCP_wrap client input operation wopts)) = [] \<longrightarrow>
           snd (SkyflowMCP_wrap client input operation wopts) = Inr result))"
proof -
  let ?p = "resp_processedText response"
  let ?cond = "reidentifyOutput opts \<noteq> Some False \<and>
           (typeof result = ''string'' \<or>
            (\<not> falsy (reidentifyField opts) \<and> typeof result = ''object'' \<and> result \<noteq> JNull \<and>
             typeof (get_property result (the (reidentifyField opts))) = ''string''))"
  have A: "(reidentify_calls (fst (wrapWithProtection client input operation opts)) \<noteq> [] \<longleftrightarrow> ?cond)
      \<and> length (reidentify_calls (fst (wrapWithProtection client input operation opts))) \<le> 1
      \<and> (reidentify_calls (fst (wrapWithProtection client input operation opts)) = [] \<longrightarrow>
           snd (wrapWithProtection client input operation opts) = Inr result)"
    if call: "deidentify_call client input (Some opts) = Inr call"
      and obs: "returns_normally (onDeidentify opts) (deidentify_result response)"
  proof -
    let ?pre = "[ExtDeidentifyText call] @
        (case onDeidentify opts of None \<Rightarrow> [] | Some f \<Rightarrow> [OnDeidentify (deidentify_result response)]) @
        [Operation ?p]"
    have pre: "reidentify_calls ?pre = []"
      by (simp add: reidentify_calls_append)
    have w: "wrapWithProtection client input operation opts =
        (?pre @ fst (wrapWithProtection_output client opts result),
         snd (wrapWithProtection_output client opts result))"
      unfolding wrapWithProtection_eq[OF call resp obs] op io_bind_Inr ..
    have rc: "reidentify_calls (fst (wrapWithProtection client input operation opts)) =
        reidentify_calls (fst (wrapWithProtection_output client opts result))"
      unfolding w by (simp add: reidentify_calls_append)
    have 1: "reidentify_calls (fst (wrapWithProtection_output client opts result)) \<noteq> [] \<longleftrightarrow> ?cond"
      unfolding output_reidentify_calls
      by (cases result) (auto simp: typeof_string split: jsval.splits)
    have 2: "length (reidentify_calls (fst (wrapWithProtection_output client opts result))) \<le> 1"
      unfolding output_reidentify_calls
      by (cases result) (auto split: jsval.splits)
    have 3: "snd (wrapWithProtection client input operation opts) = Inr result"
      if "reidentify_calls (fst (wrapWithProtection client input operation opts)) = []"
    proof -
      from that have "\<not> ?cond" using 1 rc by simp
      then have "wrapWithProtection_output client opts result = ([], Inr result)"
        by (rule output_unchanged)
      then show ?thesis unfolding w by simp
    qed
    show ?thesis using 1 2 3 rc by simp
  qed
  have B: "(reidentify_calls (fst (SkyflowMCP_wrap client input operation wopts)) \<noteq> [] \<longleftrightarrow>
           Option.bind wopts reidentifyOutput \<noteq> Some False \<and> typeof result = ''string'')
      \<and> length (reidentify_calls (fst (SkyflowMCP_wrap client input operation wopts))) \<le> 1
      \<and> (reidentify_calls (fst (SkyflowMCP_wrap client input operation wopts)) = [] \<longrightarrow>
           snd (SkyflowMCP_wrap client input operation wopts) = Inr result)"
    if call: "deidentify_call client input wopts = Inr call"
  proof -
    have w: "SkyflowMCP_wrap client input operation wopts =
        ([ExtDeidentifyText call, Operation ?p] @ fst (SkyflowMCP_wrap_output client wopts result),
         snd (SkyflowMCP_wrap_output client wopts result))"
      unfolding SkyflowMCP_wrap_eq[OF call resp] op io_bind_Inr ..
    have rc: "reidentify_calls (fst (SkyflowMCP_wrap client input operation wopts)) =
        reidentify_calls (fst (SkyflowMCP_wrap_output client wopts result))"
      unfolding w fst_conv reidentify_calls_append by simp
    have 1: "reidentify_calls (fst (SkyflowMCP_wrap_output client wopts result)) \<noteq> [] \<longleftrightarrow>
        Option.bind wopts reidentifyOutput \<noteq> Some False \<and> typeof result = ''string''"
      unfolding wrap_output_reidentify_calls
      by (cases result) auto
    have 2: "length (reidentify_calls (fst (SkyflowMCP_wrap_output client wopts result))) \<le> 1"
      unfolding wrap_output_reidentify_calls
      by (cases result) auto
    have 3: "snd (SkyflowMCP_wrap client input operation wopts) = Inr result"
      if "reidentify_calls (fst (SkyflowMCP_wrap client input operation wopts)) = []"
    proof -
      from that have "\<not> (Option.bind wopts reidentifyOutput \<noteq> Some False \<and> typeof result = ''string'')"
        using 1 rc by simp
      then have "SkyflowMCP_wrap_output client wopts result = ([], Inr result)"
        by (rule wrap_output_unchanged)
      then show ?thesis unfolding w by simp
    qed
    show ?thesis using 1 2 3 rc by simp
  qed
  show ?thesis using A B by blast
qed

text \<open>
  Claim C4, amended. Let the vault's \<^verbatim>\<open>deidentifyText\<close> succeed, the \<^verbatim>\<open>onDeidentify\<close>
  observer (if any) return, and the operation return a non-null object. If
  \<^verbatim>\<open>reidentifyOutput\<close> is not \<^verbatim>\<open>false\<close>, \<^verbatim>\<open>reidentifyField\<close> is a non-empty name, the
  object's property of that name holds a string, \<^verbatim>\<open>reidentifyText\<close> of that string
  resolves and the \<^verbatim>\<open>onReidentify\<close> observer (if any) returns, then
  \<^verbatim>\<open>wrapWithProtection\<close> resolves with a new object in which that property holds the
  restored text and every other property holds what it held, in the same property
  order; \<^verbatim>\<open>reidentifyText\<close> is called once, with the string of that property.
\<close>

theorem field_targeted_reidentify:
  assumes call: "deidentify_call client input (Some opts) = Inr call"
    and resp: "deidentifyText (skyflow client) call = Inr response"
    and obs: "returns_normally (onDeidentify opts) (deidentify_result response)"
    and op: "operation (resp_processedText response) = Inr (JObj ps)"
    and enabled: "reidentifyOutput opts \<noteq> Some False"
    and field: "reidentifyField opts = Some f" "f \<noteq> []"
    and holds: "map_of ps f = Some (JStr token)"
    and reid: "reidentifyText (skyflow client) token = Inr restored"
    and obs': "returns_normally (onReidentify opts) restored"
  shows
    "snd (wrapWithProtection client input operation opts) =
       Inr (JObj (AList.update f (JStr restored) ps))
     \<and> map_of (AList.update f (JStr restored) ps) = (map_of ps)(f \<mapsto> JStr restored)
     \<and> map fst (AList.update f (JStr restored) ps) = map fst ps
     \<and> reidentify_calls (fst (wrapWithProtection client input operation opts)) = [token]"
proof -
  let ?pre = "[ExtDeidentifyText call] @
      (case onDeidentify opts of None \<Rightarrow> [] | Some f \<Rightarrow> [OnDeidentify (deidentify_result response)]) @
      [Operation (resp_processedText response)]"
  have pre: "reidentify_calls ?pre = []"
    by (simp add: reidentify_calls_append)
  have w: "wrapWithProtection client input operation opts =
      (?pre @ fst (wrapWithProtection_output client opts (JObj ps)),
       snd (wrapWithProtection_output client opts (JObj ps)))"
    unfolding wrapWithProtection_eq[OF call resp obs] op io_bind_Inr ..
  note o = output_field[OF enabled field holds obs' reid]
  have 1: "snd (wrapWithProtection client input operation opts) =
       Inr (JObj (AList.update f (JStr restored) ps))"
    unfolding w o by simp
  have 2: "map_of (AList.update f (JStr restored) ps) = (map_of ps)(f \<mapsto> JStr restored)"
    by (rule update_conv')
  have "f \<in> fst ` set ps" using map_of_SomeD[OF holds] by force
  then have 3: "map fst (AList.update f (JStr restored) ps) = map fst ps"
    by (simp add: update_keys)
  have 4: "reidentify_calls (fst (wrapWithProtection client input operation opts)) = [token]"
    unfolding w o by (simp add: reidentify_calls_append)
  show ?thesis using 1 2 3 4 by blast
qed

text \<open>
  With \<^verbatim>\<open>reidentifyOutput: false\<close> the echoed token text is returned unchanged and
  \<^verbatim>\<open>reidentifyText\<close> is never called.
\<close>

theorem reidentify_decision_witness:
  "reidentify_calls (fst (wrapWithProtection example_client ''john@example.com''
       (\<lambda>s. Inr (JStr s)) (default_options\<lparr>reidentifyOutput := Some False\<rparr>))) = []
   \<and> snd (wrapWithProtection example_client ''john@example.com''
       (\<lambda>s. Inr (JStr s)) (default_options\<lparr>reidentifyOutput := Some False\<rparr>)) =
     Inr (JStr ''[EMAIL_ADDRESS_abc123]'')"
proof -
  let ?opts = "default_options\<lparr>reidentifyOutput := Some False\<rparr>"
  have p: "resp_processedText example_response = ''[EMAIL_ADDRESS_abc123]''"
    by (simp add: example_response_def)
  have c: "deidentify_call example_client ''john@example.com'' (Some ?opts) = Inr example_call"
    by (simp add: deidentify_call_def deidentify_tokenType_def deidentify_entities_def
        example_client_def example_config_def example_call_def default_options_def)
  have o: "returns_normally (onDeidentify ?opts) (deidentify_result example_response)"
    by (simp add: returns_normally_def default_options_def)
  have op: "(\<lambda>s. Inr (JStr s)) (resp_processedText example_response) = Inr (JStr ''[EMAIL_ADDRESS_abc123]'')"
    by (simp add: p)
  have off: "reidentifyOutput ?opts = Some False" by simp
  note t = reidentify_decision[where client = example_client and call = example_call
      and response = example_response and operation = "\<lambda>s. Inr (JStr s)"
      and result = "JStr ''[EMAIL_ADDRESS_abc123]''" and input = "''john@example.com''"
      and opts = ?opts and wopts = None, OF example_response_eq op]
  from t c o off show ?thesis by blast
qed

text \<open>
  Claim C3, as stated, at \<^verbatim>\<open>reidentifyField: ""\<close> and a result \<^verbatim>\<open>{"": token}\<close>:
  \<^verbatim>\<open>reidentifyOutput\<close> is not \<^verbatim>\<open>false\<close> and the field that \<^verbatim>\<open>reidentifyField\<close> names holds
  a string, yet \<^verbatim>\<open>reidentifyText\<close> is not called and the result is returned unchanged,
  because the source tests the truthiness of \<^verbatim>\<open>reidentifyField\<close>.
\<close>

theorem reidentify_empty_field_counterexample:
  "reidentifyOutput (default_options\<lparr>reidentifyField := Some []\<rparr>) = None
   \<and> reidentifyField (default_options\<lparr>reidentifyField := Some []\<rparr>) = Some []
   \<and> get_property (JObj [([], JStr ''[EMAIL_ADDRESS_abc123]'')]) [] = JStr ''[EMAIL_ADDRESS_abc123]''
   \<and> wrapWithProtection example_client ''john@example.com'' (\<lambda>s. Inr (JObj [([], JStr s)]))
        (default_options\<lparr>reidentifyField := Some []\<rparr>) =
      ([ExtDeidentifyText example_call, Operation ''[EMAIL_ADDRESS_abc123]''],
       Inr (JObj [([], JStr ''[EMAIL_ADDRESS_abc123]'')]))"
proof -
  let ?opts = "default_options\<lparr>reidentifyField := Some []\<rparr>"
  have p: "resp_processedText example_response = ''[EMAIL_ADDRESS_abc123]''"
    by (simp add: example_response_def)
  have c: "deidentify_call example_client ''john@example.com'' (Some ?opts) = Inr example_call"
    by (simp add: deidentify_call_def deidentify_tokenType_def deidentify_entities_def
        example_client_def example_config_def example_call_def default_options_def)
  have o: "returns_normally (onDeidentify ?opts) (deidentify_result example_response)"
    by (simp add: returns_normally_def default_options_def)
  have od: "onDeidentify ?opts = None" by (simp add: default_options_def)
  have u: "wrapWithProtection_output example_client ?opts (JObj [([], JStr ''[EMAIL_ADDRESS_abc123]'')]) =
      ([], Inr (JObj [([], JStr ''[EMAIL_ADDRESS_abc123]'')]))"
    by (rule output_unchanged) (simp add: falsy_def)
  have w: "wrapWithProtection example_client ''john@example.com'' (\<lambda>s. Inr (JObj [([], JStr s)])) ?opts =
      ([ExtDeidentifyText example_call, Operation ''[EMAIL_ADDRESS_abc123]''],
       Inr (JObj [([], JStr ''[EMAIL_ADDRESS_abc123]'')]))"
    unfolding wrapWithProtection_eq[OF c example_response_eq o] p od io_bind_Inr u by simp
  have 1: "reidentifyOutput ?opts = None" by (simp add: default_options_def)
  have 2: "reidentifyField ?opts = Some []" by simp
  have 3: "get_property (JObj [([], JStr ''[EMAIL_ADDRESS_abc123]'')]) [] = JStr ''[EMAIL_ADDRESS_abc123]''"
    by simp
  show ?thesis using 1 2 3 w by (intro conjI)
qed

text \<open>
  The result \<^verbatim>\<open>{output: token, other: "x"}\<close> with \<^verbatim>\<open>reidentifyField: "output"\<close> becomes
  \<^verbatim>\<open>{output: "john@example.com", other: "x"}\<close>.
\<close>

theorem field_targeted_reidentify_witness:
  "snd (wrapWithProtection example_client ''john@example.com''
       (\<lambda>s. Inr (JObj [(''output'', JStr s), (''other'', JStr ''x'')]))
       (default_options\<lparr>reidentifyField := Some ''output''\<rparr>)) =
     Inr (JObj [(''output'', JStr ''john@example.com''), (''other'', JStr ''x'')])
   \<and> reidentify_calls (fst (wrapWithProtection example_client ''john@example.com''
       (\<lambda>s. Inr (JObj [(''output'', JStr s), (''other'', JStr ''x'')]))
       (default_options\<lparr>reidentifyField := Some ''output''\<rparr>))) = [''[EMAIL_ADDRESS_abc123]'']"
proof -
  let ?opts = "default_options\<lparr>reidentifyField := Some ''output''\<rparr>"
  let ?ps = "[(''output'', JStr ''[EMAIL_ADDRESS_abc123]''), (''other'', JStr ''x'')]"
  have p: "resp_processedText example_response = ''[EMAIL_ADDRESS_abc123]''"
    by (simp add: example_response_def)
  have c: "deidentify_call example_client ''john@example.com'' (Some ?opts) = Inr example_call"
    by (simp add: deidentify_call_def deidentify_tokenType_def deidentify_entities_def
        example_client_def example_config_def example_call_def default_options_def)
  have o: "returns_normally (onDeidentify ?opts) (deidentify_result example_response)"
    by (simp add: returns_normally_def default_options_def)
  have op: "(\<lambda>s. Inr (JObj [(''output'', JStr s), (''other'', JStr ''x'')]))
      (resp_processedText example_response) = Inr (JObj ?ps)"
    by (simp add: p)
  have en: "reidentifyOutput ?opts \<noteq> Some False" by (simp add: default_options_def)
  have f: "reidentifyField ?opts = Some ''output''" "''output'' \<noteq> []" by simp_all
  have h: "map_of ?ps ''output'' = Some (JStr ''[EMAIL_ADDRESS_abc123]'')" by simp
  have o': "returns_normally (onReidentify ?opts) ''john@example.com''"
    by (simp add: returns_normally_def default_options_def)
  have u: "AList.update ''output'' (JStr ''john@example.com'') ?ps =
      [(''output'', JStr ''john@example.com''), (''other'', JStr ''x'')]"
    by simp
  note t = field_targeted_reidentify[where client = example_client and call = example_call
      and response = example_response and input = "''john@example.com''" and opts = ?opts
      and operation = "\<lambda>s. Inr (JObj [(''output'', JStr s), (''other'', JStr ''x'')])"
      and ps = ?ps and f = "''output''" and token = "''[EMAIL_ADDRESS_abc123]''"
      and restored = "''john@example.com''",
      OF c example_response_eq o op en f h example_restore_eq o']
  from t show ?thesis unfolding u by blast
qed

text \<open>
  Claim C4, as stated, at three inputs whose result is a non-null object with a string in
  the field that \<^verbatim>\<open>reidentifyField\<close> names. With \<^verbatim>\<open>reidentifyOutput: false\<close>, and with
  the empty name for \<^verbatim>\<open>reidentifyField\<close>, the result is returned unchanged, the token
  still in the field. With an \<^verbatim>\<open>onReidentify\<close> callback that throws, the field is
  reidentified and \<^verbatim>\<open>wrapWithProtection\<close> then rejects with what the callback threw.
\<close>

theorem field_targeted_reidentify_counterexample:
  "map_of [(''output'', JStr ''[EMAIL_ADDRESS_abc123]''), (''other'', JStr ''x'')] ''output'' =
     Some (JStr ''[EMAIL_ADDRESS_abc123]'')
   \<and> wrapWithProtection example_client ''john@example.com''
       (\<lambda>s. Inr (JObj [(''output'', JStr s), (''other'', JStr ''x'')]))
       (default_options\<lparr>reidentifyOutput := Some False, reidentifyField := Some ''output''\<rparr>) =
     ([ExtDeidentifyText example_call, Operation ''[EMAIL_ADDRESS_abc123]''],
      Inr (JObj [(''output'', JStr ''[EMAIL_ADDRESS_abc123]''), (''other'', JStr ''x'')]))
   \<and> map_of [([], JStr ''[EMAIL_ADDRESS_abc123]''), (''other'', JStr ''x'')] [] =
     Some (JStr ''[EMAIL_ADDRESS_abc123]'')
   \<and> wrapWithProtection example_client ''john@example.com''
       (\<lambda>s. Inr (JObj [([], JStr s), (''other'', JStr ''x'')]))
       (default_options\<lparr>reidentifyField := Some []\<rparr>) =
     ([ExtDeidentifyText example_call, Operation ''[EMAIL_ADDRESS_abc123]''],
      Inr (JObj [([], JStr ''[EMAIL_ADDRESS_abc123]''), (''other'', JStr ''x'')]))
   \<and> wrapWithProtection example_client ''john@example.com''
       (\<lambda>s. Inr (JObj [(''output'', JStr s), (''other'', JStr ''x'')]))
       (default_options\<lparr>reidentifyField := Some ''output'',
          onReidentify := Some (\<lambda>restored. Some (Error ''observer failed''))\<rparr>) =
     ([ExtDeidentifyText example_call, Operation ''[EMAIL_ADDRESS_abc123]'',
       ExtReidentifyText ''[EMAIL_ADDRESS_abc123]'', OnReidentify ''john@example.com''],
      Inl (Error ''observer failed''))"
proof -
  let ?o1 = "default_options\<lparr>reidentifyOutput := Some False, reidentifyField := Some ''output''\<rparr>"
  let ?o2 = "default_options\<lparr>reidentifyField := Some []\<rparr>"
  let ?o3 = "default_options\<lparr>reidentifyField := Some ''output'',
          onReidentify := Some (\<lambda>restored. Some (Error ''observer failed''))\<rparr>"
  let ?r1 = "JObj [(''output'', JStr ''[EMAIL_ADDRESS_abc123]''), (''other'', JStr ''x'')]"
  let ?r2 = "JObj [([], JStr ''[EMAIL_ADDRESS_abc123]''), (''other'', JStr ''x'')]"
  have p: "resp_processedText example_response = ''[EMAIL_ADDRESS_abc123]''"
    by (simp add: example_response_def)
  have c1: "deidentify_call example_client ''john@example.com'' (Some ?o1) = Inr example_call"
    and c2: "deidentify_call example_client ''john@example.com'' (Some ?o2) = Inr example_call"
    by (simp_all add: deidentify_call_def deidentify_tokenType_def deidentify_entities_def
        example_client_def example_config_def example_call_def default_options_def)
  have ob1: "returns_normally (onDeidentify ?o1) (deidentify_result example_response)"
    and ob2: "returns_normally (onDeidentify ?o2) (deidentify_result example_response)"
    by (simp_all add: returns_normally_def default_options_def)
  have od: "onDeidentify ?o1 = None" "onDeidentify ?o2 = None"
    by (simp_all add: default_options_def)
  have u1: "wrapWithProtection_output example_client ?o1 ?r1 = ([], Inr ?r1)"
    by (rule output_unchanged) simp
  have u2: "wrapWithProtection_output example_client ?o2 ?r2 = ([], Inr ?r2)"
    by (rule output_unchanged) (simp add: falsy_def)
  have w1: "wrapWithProtection example_client ''john@example.com''
       (\<lambda>s. Inr (JObj [(''output'', JStr s), (''other'', JStr ''x'')])) ?o1 =
     ([ExtDeidentifyText example_call, Operation ''[EMAIL_ADDRESS_abc123]''], Inr ?r1)"
    unfolding wrapWithProtection_eq[OF c1 example_response_eq ob1] p od io_bind_Inr u1 by simp
  have w2: "wrapWithProtection example_client ''john@example.com''
       (\<lambda>s. Inr (JObj [([], JStr s), (''other'', JStr ''x'')])) ?o2 =
     ([ExtDeidentifyText example_call, Operation ''[EMAIL_ADDRESS_abc123]''], Inr ?r2)"
    unfolding wrapWithProtection_eq[OF c2 example_response_eq ob2] p od io_bind_Inr u2 by simp
  have m1: "map_of [(''output'', JStr ''[EMAIL_ADDRESS_abc123]''), (''other'', JStr ''x'')] ''output'' =
     Some (JStr ''[EMAIL_ADDRESS_abc123]'')" by simp
  have m2: "map_of [([], JStr ''[EMAIL_ADDRESS_abc123]''), (''other'', JStr ''x'')] [] =
     Some (JStr ''[EMAIL_ADDRESS_abc123]'')" by simp
  have c3: "deidentify_call example_client ''john@example.com'' (Some ?o3) = Inr example_call"
    by (simp add: deidentify_call_def deidentify_tokenType_def deidentify_entities_def
        example_client_def example_config_def example_call_def default_options_def)
  have ob3: "returns_normally (onDeidentify ?o3) (deidentify_result example_response)"
    by (simp add: returns_normally_def default_options_def)
  have od3: "onDeidentify ?o3 = None"
    by (simp add: default_options_def)
  have u3: "wrapWithProtection_output example_client ?o3 ?r1 =
      ([ExtReidentifyText ''[EMAIL_ADDRESS_abc123]'', OnReidentify ''john@example.com''],
       Inl (Error ''observer failed''))"
    by (simp add: wrapWithProtection_output_def SkyflowMCP_reidentify_eq example_restore_eq
        io_bind_def notify_def io_call_def falsy_def default_options_def)
  have w3: "wrapWithProtection example_client ''john@example.com''
       (\<lambda>s. Inr (JObj [(''output'', JStr s), (''other'', JStr ''x'')])) ?o3 =
     ([ExtDeidentifyText example_call, Operation ''[EMAIL_ADDRESS_abc123]'',
       ExtReidentifyText ''[EMAIL_ADDRESS_abc123]'', OnReidentify ''john@example.com''],
      Inl (Error ''observer failed''))"
    unfolding wrapWithProtection_eq[OF c3 example_response_eq ob3] p od3 io_bind_Inr u3 by simp
  show ?thesis using m1 w1 m2 w2 w3 by (intro conjI)
qed

section \<open>The entity vocabulary and the entities sent to the vault\<close>

lemma isValidEntity_iff:
  "isValidEntity e \<longleftrightarrow> e \<in> set ENTITY_TYPES \<or> e \<in> set Object_prototype_keys"
proof -
  have "map fst ENTITY_MAP = ENTITY_TYPES" by code_simp
  then show ?thesis by (simp add: isValidEntity_def)
qed

lemma getEntityEnum_invalid:
  "\<not> isValidEntity e \<Longrightarrow> getEntityEnum e = Inl (Error (''Invalid entity type: '' @ e))"
proof -
  assume a: "\<not> isValidEntity e"
  then have "e \<notin> fst ` set ENTITY_MAP" by (simp add: isValidEntity_def)
  then have "map_of ENTITY_MAP e = None" by (simp add: map_of_eq_None_iff)
  with a show ?thesis by (simp add: getEntityEnum_def ENTITY_MAP_get_def isValidEntity_def)
qed

lemma getEntityEnum_valid:
  "isValidEntity e \<Longrightarrow> \<exists>v. getEntityEnum e = Inr v"
  by (auto simp: getEntityEnum_def ENTITY_MAP_get_def isValidEntity_def map_of_eq_None_iff
      split: option.splits)

lemma map_throwing_invalid:
  "\<exists>e \<in> set es. \<not> isValidEntity e \<Longrightarrow>
   \<exists>bad \<in> set es. \<not> isValidEntity bad \<and>
      map_throwing getEntityEnum es = Inl (Error (''Invalid entity type: '' @ bad))"
proof (induction es)
  case Nil
  then show ?case by simp
next
  case (Cons x xs)
  show ?case
  proof (cases "isValidEntity x")
    case False
    then show ?thesis by (auto simp: getEntityEnum_invalid)
  next
    case True
    then obtain v where v: "getEntityEnum x = Inr v" using getEntityEnum_valid by blast
    from True Cons.prems have "\<exists>e \<in> set xs. \<not> isValidEntity e" by auto
    from Cons.IH[OF this] obtain bad where "bad \<in> set xs" "\<not> isValidEntity bad"
      "map_throwing getEntityEnum xs = Inl (Error (''Invalid entity type: '' @ bad))" by blast
    then show ?thesis using v by auto
  qed
qed


lemma entity_guard_vocabulary:
  "isValidEntity ''email_address''"
  "\<not> isValidEntity ''EMAIL_ADDRESS''"
  "getEntityEnum ''bogus'' = Inl (Error (''Invalid entity type: '' @ ''bogus''))"
  "e \<notin> set Object_prototype_keys \<Longrightarrow> isValidEntity e \<longleftrightarrow> e \<in> set ENTITY_TYPES"
proof -
  show "isValidEntity ''email_address''" by code_simp
  show n: "\<not> isValidEntity ''EMAIL_ADDRESS''" by code_simp
  have "\<not> isValidEntity ''bogus''" by code_simp
  then show "getEntityEnum ''bogus'' = Inl (Error (''Invalid entity type: '' @ ''bogus''))"
    by (rule getEntityEnum_invalid)
  show "e \<notin> set Object_prototype_keys \<Longrightarrow> isValidEntity e \<longleftrightarrow> e \<in> set ENTITY_TYPES"
    by (simp add: isValidEntity_iff)
qed

lemma invalid_entity_before_call:
  assumes "deidentify_entities this opts = Some es" and "\<exists>e \<in> set es. \<not> isValidEntity e"
  shows "\<exists>bad \<in> set es. \<not> isValidEntity bad \<and>
     SkyflowMCP_deidentify this txt opts =
       ([], Inl (DeidentifyError (''Invalid entity type: '' @ bad) None JUndefined
                  (Some (Error (''Invalid entity type: '' @ bad)))))"
proof -
  from map_throwing_invalid[OF assms(2)] obtain bad where
    bad: "bad \<in> set es" "\<not> isValidEntity bad"
      "map_throwing getEntityEnum es = Inl (Error (''Invalid entity type: '' @ bad))"
    by blast
  have "es \<noteq> []" using assms(2) by auto
  then have "deidentify_call this txt opts = Inl (Error (''Invalid entity type: '' @ bad))"
    using assms(1) bad(3) by (simp add: deidentify_call_def Let_def)
  then have "SkyflowMCP_deidentify this txt opts =
       ([], Inl (DeidentifyError (''Invalid entity type: '' @ bad) None JUndefined
                  (Some (Error (''Invalid entity type: '' @ bad)))))"
    by (simp add: SkyflowMCP_deidentify_eq)
  with bad show ?thesis by blast
qed

text \<open>
  Claim C7, at the name \<^verbatim>\<open>constructor\<close>, which is not one of the 69 entity names:
  \<^verbatim>\<open>isValidEntity\<close> answers \<^verbatim>\<open>true\<close> and \<^verbatim>\<open>getEntityEnum\<close> returns the inherited
  \<^verbatim>\<open>Object.prototype.constructor\<close> instead of throwing, so that \<^verbatim>\<open>deidentify\<close> with
  \<^verbatim>\<open>entities: ["constructor"]\<close> hands that value to the vault. For every name that is
  not a property of \<^verbatim>\<open>Object.prototype\<close> the guard is the membership test of the
  vocabulary, and an invalid name ends \<^verbatim>\<open>deidentify\<close> before any call of the vault
  (\<open>entity_guard_vocabulary\<close>, \<open>invalid_entity_before_call\<close>).
\<close>

theorem entity_guard_prototype_keys:
  "isValidEntity ''constructor''
   \<and> ''constructor'' \<notin> set ENTITY_TYPES
   \<and> getEntityEnum ''constructor'' = Inr (PrototypeMember ''constructor'')
   \<and> SkyflowMCP_deidentify example_client ''My SSN is 123-45-6789''
        (Some \<lparr>tokenType = None, entities = Some [''constructor'']\<rparr>) =
      ([ExtDeidentifyText
          \<lparr>request_text = ''My SSN is 123-45-6789'', tokenFormat = Sdk_VAULT_TOKEN,
           setEntities = Some [PrototypeMember ''constructor'']\<rparr>],
       Inr \<lparr>processedText = ''[EMAIL_ADDRESS_abc123]'', res_entities = None,
            wordCount = None, charCount = None\<rparr>)"
  by code_simp

lemma deidentify_call_cases:
  "deidentify_call this txt opts =
     (case deidentify_entities this opts of
        None \<Rightarrow> Inr \<lparr>request_text = txt, tokenFormat = TOKEN_TYPE_MAP (deidentify_tokenType this opts), setEntities = None\<rparr>
      | Some es \<Rightarrow>
          if es = [] then Inr \<lparr>request_text = txt, tokenFormat = TOKEN_TYPE_MAP (deidentify_tokenType this opts), setEntities = None\<rparr>
          else (case map_throwing getEntityEnum es of
                  Inl e \<Rightarrow> Inl e
                | Inr enums \<Rightarrow> Inr \<lparr>request_text = txt, tokenFormat = TOKEN_TYPE_MAP (deidentify_tokenType this opts), setEntities = Some enums\<rparr>))"
  by (simp add: deidentify_call_def Let_def split: option.splits)

text \<open>
  Claim C10. In \<^verbatim>\<open>SkyflowMCP.deidentify\<close> the entities in effect are the per-call
  \<^verbatim>\<open>entities\<close> when given, even when empty, and the client's \<^verbatim>\<open>defaultEntities\<close>
  otherwise. A per-call \<^verbatim>\<open>entities: []\<close> therefore wins over any \<^verbatim>\<open>defaultEntities\<close>: no
  name is checked, \<^verbatim>\<open>setEntities\<close> is not called, and the call and its outcome are those
  of omitting \<^verbatim>\<open>entities\<close> on a client without \<^verbatim>\<open>defaultEntities\<close>. In general, names are
  checked and handed to the vault exactly when the entities in effect are a non-empty
  list.
\<close>

theorem empty_entities_override:
  "deidentify_entities this (Some (opts\<lparr>entities := Some []\<rparr>)) = Some []
   \<and> deidentify_call this txt (Some (opts\<lparr>entities := Some []\<rparr>)) =
       Inr \<lparr>request_text = txt,
            tokenFormat = TOKEN_TYPE_MAP (deidentify_tokenType this (Some opts)),
            setEntities = None\<rparr>
   \<and> deidentify_call this txt (Some (opts\<lparr>entities := Some []\<rparr>)) =
       deidentify_call (without_defaultEntities this) txt (Some (opts\<lparr>entities := None\<rparr>))
   \<and> SkyflowMCP_deidentify this txt (Some (opts\<lparr>entities := Some []\<rparr>)) =
       SkyflowMCP_deidentify (without_defaultEntities this) txt (Some (opts\<lparr>entities := None\<rparr>))
   \<and> (\<forall>o'. deidentify_entities this o' = None \<or> deidentify_entities this o' = Some [] \<longrightarrow>
         deidentify_call this txt o' =
           Inr \<lparr>request_text = txt, tokenFormat = TOKEN_TYPE_MAP (deidentify_tokenType this o'),
                setEntities = None\<rparr>)
   \<and> (\<forall>o' es. deidentify_entities this o' = Some es \<and> es \<noteq> [] \<longrightarrow>
         deidentify_call this txt o' =
           (case map_throwing getEntityEnum es of
              Inl e \<Rightarrow> Inl e
            | Inr enums \<Rightarrow>
                Inr \<lparr>request_text = txt,
                     tokenFormat = TOKEN_TYPE_MAP (deidentify_tokenType this o'),
                     setEntities = Some enums\<rparr>))"
proof -
  let ?e = "Some (opts\<lparr>entities := Some []\<rparr>)"
  let ?n = "Some (opts\<lparr>entities := None\<rparr>)"
  have 1: "deidentify_entities this ?e = Some []"
    by (simp add: deidentify_entities_def)
  have t: "deidentify_tokenType this ?e = deidentify_tokenType this (Some opts)"
    by (simp add: deidentify_tokenType_def)
  have 2: "deidentify_call this txt ?e =
       Inr \<lparr>request_text = txt,
            tokenFormat = TOKEN_TYPE_MAP (deidentify_tokenType this (Some opts)),
            setEntities = None\<rparr>"
    by (simp add: deidentify_call_cases 1 t)
  have n: "deidentify_entities (without_defaultEntities this) ?n = None"
    by (cases "options (this_config this)")
       (simp_all add: deidentify_entities_def without_defaultEntities_def)
  have t': "deidentify_tokenType (without_defaultEntities this) ?n = deidentify_tokenType this (Some opts)"
    by (cases "options (this_config this)"; cases "tokenType opts")
       (simp_all add: deidentify_tokenType_def without_defaultEntities_def)
  have 3: "deidentify_call this txt ?e = deidentify_call (without_defaultEntities this) txt ?n"
    unfolding 2 by (simp add: deidentify_call_cases n t')
  have s: "skyflow (without_defaultEntities this) = skyflow this"
    by (simp add: without_defaultEntities_def)
  have 4: "SkyflowMCP_deidentify this txt ?e = SkyflowMCP_deidentify (without_defaultEntities this) txt ?n"
    by (simp add: SkyflowMCP_deidentify_def 3 s)
  have 5: "\<forall>o'. deidentify_entities this o' = None \<or> deidentify_entities this o' = Some [] \<longrightarrow>
         deidentify_call this txt o' =
           Inr \<lparr>request_text = txt, tokenFormat = TOKEN_TYPE_MAP (deidentify_tokenType this o'),
                setEntities = None\<rparr>"
    by (auto simp: deidentify_call_cases)
  have 6: "\<forall>o' es. deidentify_entities this o' = Some es \<and> es \<noteq> [] \<longrightarrow>
         deidentify_call this txt o' =
           (case map_throwing getEntityEnum es of
              Inl e \<Rightarrow> Inl e
            | Inr enums \<Rightarrow>
                Inr \<lparr>request_text = txt,
                     tokenFormat = TOKEN_TYPE_MAP (deidentify_tokenType this o'),
                     setEntities = Some enums\<rparr>)"
    by (auto simp: deidentify_call_cases)
  show ?thesis
    by (intro conjI) (rule 1 2 3 4 5 6)+
qed

text \<open>
  On a client with \<^verbatim>\<open>defaultEntities: ["ssn"]\<close>, \<^verbatim>\<open>entities: []\<close> sends no entities, and
  omitting \<^verbatim>\<open>entities\<close> sends \<^verbatim>\<open>DetectEntities.SSN\<close>.
\<close>

theorem empty_entities_override_witness:
  "deidentify_call ssn_client ''My SSN is 123-45-6789'' (Some \<lparr>tokenType = None, entities = Some []\<rparr>) =
     Inr \<lparr>request_text = ''My SSN is 123-45-6789'', tokenFormat = Sdk_VAULT_TOKEN, setEntities = None\<rparr>
   \<and> deidentify_call ssn_client ''My SSN is 123-45-6789'' (Some \<lparr>tokenType = None, entities = None\<rparr>) =
     Inr \<lparr>request_text = ''My SSN is 123-45-6789'', tokenFormat = Sdk_VAULT_TOKEN,
          setEntities = Some [EnumMember ''SSN'']\<rparr>"
proof -
  let ?o = "\<lparr>tokenType = None, entities = None\<rparr>"
  have e: "?o\<lparr>entities := Some []\<rparr> = \<lparr>tokenType = None, entities = Some []\<rparr>" by simp
  have t: "TOKEN_TYPE_MAP (deidentify_tokenType ssn_client (Some ?o)) = Sdk_VAULT_TOKEN"
    by (simp add: deidentify_tokenType_def ssn_client_def example_client_def example_config_def)
  have d: "deidentify_entities ssn_client (Some ?o) = Some [''ssn''] \<and> [''ssn''] \<noteq> []"
    by (simp add: deidentify_entities_def ssn_client_def example_client_def example_config_def)
  have m: "map_throwing getEntityEnum [''ssn''] = Inr [EnumMember ''SSN'']"
    by code_simp
  note th = empty_entities_override[of ssn_client ?o "''My SSN is 123-45-6789''", unfolded e t]
  from th have 1: "deidentify_call ssn_client ''My SSN is 123-45-6789'' (Some \<lparr>tokenType = None, entities = Some []\<rparr>) =
     Inr \<lparr>request_text = ''My SSN is 123-45-6789'', tokenFormat = Sdk_VAULT_TOKEN, setEntities = None\<rparr>"
    by blast
  from th d have "deidentify_call ssn_client ''My SSN is 123-45-6789'' (Some ?o) =
           (case map_throwing getEntityEnum [''ssn''] of
              Inl e \<Rightarrow> Inl e
            | Inr enums \<Rightarrow>
                Inr \<lparr>request_text = ''My SSN is 123-45-6789'',
                     tokenFormat = TOKEN_TYPE_MAP (deidentify_tokenType ssn_client (Some ?o)),
                     setEntities = Some enums\<rparr>)"
    by blast
  then have 2: "deidentify_call ssn_client ''My SSN is 123-45-6789'' (Some ?o) =
     Inr \<lparr>request_text = ''My SSN is 123-45-6789'', tokenFormat = Sdk_VAULT_TOKEN,
          setEntities = Some [EnumMember ''SSN'']\<rparr>"
    unfolding m t by simp
  from 1 2 show ?thesis by (rule conjI)
qed

section \<open>Construction from the environment\<close>

lemma SkyflowMCP_new_Inr:
  assumes "SkyflowMCP_new new_Skyflow cfg = Inr client"
  shows "this_config client = cfg
     \<and> (\<exists>c. extractClusterId (cfg_vaultUrl cfg) = Some c \<and>
          new_Skyflow [\<lparr>sdk_vaultId = cfg_vaultId cfg, sdk_clusterId = c,
                         sdk_credentials = credentials cfg\<rparr>] = Inr (skyflow client))"
  using assms
  by (auto simp: SkyflowMCP_new_def validateVaultConfig_def Let_def falsy_def
      split: if_splits sum.splits option.splits)

lemma messages_distinct:
  "distinct [''SKYFLOW_VAULT_ID environment variable is required'',
             ''SKYFLOW_VAULT_URL environment variable is required'',
             ''Either SKYFLOW_BEARER_TOKEN or SKYFLOW_API_KEY environment variable is required'']"
  by simp

text \<open>
  Claim C8, amended. Here a variable or an override is missing when it is absent or
  empty, and set otherwise, as the source's truthiness tests take it; the vault id and
  the vault url are missing when both their override and their variable are.
  \<^verbatim>\<open>createFromEnv\<close> fails with a \<^verbatim>\<open>ConfigurationError\<close> (code \<^verbatim>\<open>CONFIGURATION_ERROR\<close>)
  when the vault id is missing, when the vault url is missing, and, provided that no
  credentials are overridden, when both the bearer token and the API key are missing;
  the three messages differ, and the error is that of the first missing item in this
  order. When no credentials are overridden and the bearer token is set, the client is
  constructed with the bearer token: its configuration and the vault configuration
  handed to the vault library hold \<^verbatim>\<open>{token: bearer}\<close>, and the outcome is the same
  whatever the API key variable holds.
\<close>

theorem createFromEnv_errors_and_precedence:
  fixes new_Skyflow overrides env the_vaultId the_vaultUrl
  defines "the_vaultId \<equiv> js_or (Option.bind overrides o_vaultId) (env ''SKYFLOW_VAULT_ID'')"
    and "the_vaultUrl \<equiv> js_or (Option.bind overrides o_vaultUrl) (env ''SKYFLOW_VAULT_URL'')"
  shows
    "(falsy the_vaultId \<longrightarrow>
        createFromEnv new_Skyflow overrides env =
          Inl (ConfigurationError ''SKYFLOW_VAULT_ID environment variable is required'' None))
     \<and> (\<not> falsy the_vaultId \<and> falsy the_vaultUrl \<longrightarrow>
        createFromEnv new_Skyflow overrides env =
          Inl (ConfigurationError ''SKYFLOW_VAULT_URL environment variable is required'' None))
     \<and> (\<not> falsy the_vaultId \<and> \<not> falsy the_vaultUrl \<and> Option.bind overrides o_credentials = None \<and>
         falsy (env ''SKYFLOW_BEARER_TOKEN'') \<and> falsy (env ''SKYFLOW_API_KEY'') \<longrightarrow>
        createFromEnv new_Skyflow overrides env =
          Inl (ConfigurationError
                 ''Either SKYFLOW_BEARER_TOKEN or SKYFLOW_API_KEY environment variable is required''
                 None))
     \<and> (falsy the_vaultId \<or> falsy the_vaultUrl \<or>
         (Option.bind overrides o_credentials = None \<and>
          falsy (env ''SKYFLOW_BEARER_TOKEN'') \<and> falsy (env ''SKYFLOW_API_KEY'')) \<longrightarrow>
        (\<exists>msg \<in> set [''SKYFLOW_VAULT_ID environment variable is required'',
                        ''SKYFLOW_VAULT_URL environment variable is required'',
                        ''Either SKYFLOW_BEARER_TOKEN or SKYFLOW_API_KEY environment variable is required''].
           createFromEnv new_Skyflow overrides env = Inl (ConfigurationError msg None)))
     \<and> (\<forall>msg c. name (ConfigurationError msg c) = ''ConfigurationError''
              \<and> code (ConfigurationError msg c) = ''CONFIGURATION_ERROR''
              \<and> message (ConfigurationError msg c) = msg)
     \<and> distinct [''SKYFLOW_VAULT_ID environment variable is required'',
                 ''SKYFLOW_VAULT_URL environment variable is required'',
                 ''Either SKYFLOW_BEARER_TOKEN or SKYFLOW_API_KEY environment variable is required'']
     \<and> (\<forall>b. \<not> falsy the_vaultId \<and> \<not> falsy the_vaultUrl \<and> Option.bind overrides o_credentials = None \<and>
             env ''SKYFLOW_BEARER_TOKEN'' = Some b \<and> b \<noteq> [] \<longrightarrow>
          createFromEnv new_Skyflow overrides env =
            SkyflowMCP_new new_Skyflow
              \<lparr>cfg_vaultId = the the_vaultId, cfg_vaultUrl = the the_vaultUrl, credentials = Token b,
               cfg_accountId =
                 js_or (Option.bind overrides o_accountId) (env ''SKYFLOW_ACCOUNT_ID''),
               cfg_workspaceId =
                 js_or (Option.bind overrides o_workspaceId) (env ''SKYFLOW_WORKSPACE_ID''),
               options = Option.bind overrides o_options\<rparr>
        \<and> (\<forall>k. createFromEnv new_Skyflow overrides (env(''SKYFLOW_API_KEY'' := k)) =
                createFromEnv new_Skyflow overrides env)
        \<and> (\<forall>client. createFromEnv new_Skyflow overrides env = Inr client \<longrightarrow>
              credentials (this_config client) = Token b
            \<and> (\<exists>c. new_Skyflow [\<lparr>sdk_vaultId = the the_vaultId, sdk_clusterId = c,
                                   sdk_credentials = Token b\<rparr>] = Inr (skyflow client))))"
proof -
  have 1: "falsy the_vaultId \<longrightarrow>
        createFromEnv new_Skyflow overrides env =
          Inl (ConfigurationError ''SKYFLOW_VAULT_ID environment variable is required'' None)"
    by (simp add: createFromEnv_def the_vaultId_def)
  have 2: "\<not> falsy the_vaultId \<and> falsy the_vaultUrl \<longrightarrow>
        createFromEnv new_Skyflow overrides env =
          Inl (ConfigurationError ''SKYFLOW_VAULT_URL environment variable is required'' None)"
    by (simp add: createFromEnv_def the_vaultId_def the_vaultUrl_def)
  have 3: "\<not> falsy the_vaultId \<and> \<not> falsy the_vaultUrl \<and> Option.bind overrides o_credentials = None \<and>
         falsy (env ''SKYFLOW_BEARER_TOKEN'') \<and> falsy (env ''SKYFLOW_API_KEY'') \<longrightarrow>
        createFromEnv new_Skyflow overrides env =
          Inl (ConfigurationError
                 ''Either SKYFLOW_BEARER_TOKEN or SKYFLOW_API_KEY environment variable is required''
                 None)"
    by (simp add: createFromEnv_def the_vaultId_def the_vaultUrl_def)
  have 7: "falsy the_vaultId \<or> falsy the_vaultUrl \<or>
         (Option.bind overrides o_credentials = None \<and>
          falsy (env ''SKYFLOW_BEARER_TOKEN'') \<and> falsy (env ''SKYFLOW_API_KEY'')) \<longrightarrow>
        (\<exists>msg \<in> set [''SKYFLOW_VAULT_ID environment variable is required'',
                        ''SKYFLOW_VAULT_URL environment variable is required'',
                        ''Either SKYFLOW_BEARER_TOKEN or SKYFLOW_API_KEY environment variable is required''].
           createFromEnv new_Skyflow overrides env = Inl (ConfigurationError msg None))"
  proof
    let ?m1 = "''SKYFLOW_VAULT_ID environment variable is required''"
    let ?m2 = "''SKYFLOW_VAULT_URL environment variable is required''"
    let ?m3 = "''Either SKYFLOW_BEARER_TOKEN or SKYFLOW_API_KEY environment variable is required''"
    assume a: "falsy the_vaultId \<or> falsy the_vaultUrl \<or>
         (Option.bind overrides o_credentials = None \<and>
          falsy (env ''SKYFLOW_BEARER_TOKEN'') \<and> falsy (env ''SKYFLOW_API_KEY''))"
    then consider (a) "falsy the_vaultId"
      | (b) "\<not> falsy the_vaultId" "falsy the_vaultUrl"
      | (c) "\<not> falsy the_vaultId" "\<not> falsy the_vaultUrl"
          "Option.bind overrides o_credentials = None"
          "falsy (env ''SKYFLOW_BEARER_TOKEN'')" "falsy (env ''SKYFLOW_API_KEY'')"
      by argo
    then show "\<exists>msg \<in> set [?m1, ?m2, ?m3].
        createFromEnv new_Skyflow overrides env = Inl (ConfigurationError msg None)"
    proof cases
      case a
      then have "createFromEnv new_Skyflow overrides env = Inl (ConfigurationError ?m1 None)"
        using 1 by blast
      then show ?thesis by (rule bexI) simp
    next
      case b
      then have "createFromEnv new_Skyflow overrides env = Inl (ConfigurationError ?m2 None)"
        using 2 by blast
      then show ?thesis by (rule bexI) simp
    next
      case c
      then have "createFromEnv new_Skyflow overrides env = Inl (ConfigurationError ?m3 None)"
        using 3 by blast
      then show ?thesis by (rule bexI) simp
    qed
  qed
  have 4: "\<forall>msg c. name (ConfigurationError msg c) = ''ConfigurationError''
              \<and> code (ConfigurationError msg c) = ''CONFIGURATION_ERROR''
              \<and> message (ConfigurationError msg c) = msg"
    by (simp add: ConfigurationError_def)
  have 6: "createFromEnv new_Skyflow overrides env =
            SkyflowMCP_new new_Skyflow
              \<lparr>cfg_vaultId = the the_vaultId, cfg_vaultUrl = the the_vaultUrl, credentials = Token b,
               cfg_accountId =
                 js_or (Option.bind overrides o_accountId) (env ''SKYFLOW_ACCOUNT_ID''),
               cfg_workspaceId =
                 js_or (Option.bind overrides o_workspaceId) (env ''SKYFLOW_WORKSPACE_ID''),
               options = Option.bind overrides o_options\<rparr>
        \<and> (\<forall>k. createFromEnv new_Skyflow overrides (env(''SKYFLOW_API_KEY'' := k)) =
                createFromEnv new_Skyflow overrides env)
        \<and> (\<forall>client. createFromEnv new_Skyflow overrides env = Inr client \<longrightarrow>
              credentials (this_config client) = Token b
            \<and> (\<exists>c. new_Skyflow [\<lparr>sdk_vaultId = the the_vaultId, sdk_clusterId = c,
                                   sdk_credentials = Token b\<rparr>] = Inr (skyflow client)))"
    if a: "\<not> falsy the_vaultId \<and> \<not> falsy the_vaultUrl \<and> Option.bind overrides o_credentials = None \<and>
             env ''SKYFLOW_BEARER_TOKEN'' = Some b \<and> b \<noteq> []" for b
  proof -
    let ?cfg = "\<lparr>cfg_vaultId = the the_vaultId, cfg_vaultUrl = the the_vaultUrl, credentials = Token b,
               cfg_accountId =
                 js_or (Option.bind overrides o_accountId) (env ''SKYFLOW_ACCOUNT_ID''),
               cfg_workspaceId =
                 js_or (Option.bind overrides o_workspaceId) (env ''SKYFLOW_WORKSPACE_ID''),
               options = Option.bind overrides o_options\<rparr>"
    have nf: "\<not> falsy (Some b)" using a by (simp add: falsy_def)
    have e: "createFromEnv new_Skyflow overrides env = SkyflowMCP_new new_Skyflow ?cfg"
      using a nf by (simp add: createFromEnv_def the_vaultId_def the_vaultUrl_def)
    have k: "createFromEnv new_Skyflow overrides (env(''SKYFLOW_API_KEY'' := k)) =
        SkyflowMCP_new new_Skyflow ?cfg" for k
      using a nf by (simp add: createFromEnv_def the_vaultId_def the_vaultUrl_def)
    have c: "credentials (this_config client) = Token b
            \<and> (\<exists>c. new_Skyflow [\<lparr>sdk_vaultId = the the_vaultId, sdk_clusterId = c,
                                   sdk_credentials = Token b\<rparr>] = Inr (skyflow client))"
      if "createFromEnv new_Skyflow overrides env = Inr client" for client
      using SkyflowMCP_new_Inr[of new_Skyflow ?cfg client] that e by auto
    show ?thesis using e k c by simp
  qed
  show ?thesis
    using 1 2 3 7 4 messages_distinct 6 by blast
qed


text \<open>
  With all four variables set the client holds the bearer token, unsetting the API key
  changes nothing, and unsetting the vault id gives the first error.
\<close>

theorem createFromEnv_errors_and_precedence_witness:
  "createFromEnv example_new_Skyflow None example_env =
     Inr \<lparr>skyflow =
            example_skyflow\<lparr>vaultConfigs :=
              [\<lparr>sdk_vaultId = ''env-vault-id'', sdk_clusterId = ''envcluster'',
                sdk_credentials = Token ''env-bearer-token''\<rparr>]\<rparr>,
          this_vaultId = ''env-vault-id'',
          this_config =
            \<lparr>cfg_vaultId = ''env-vault-id'',
             cfg_vaultUrl = ''https://envcluster.vault.skyflowapis.com'',
             credentials = Token ''env-bearer-token'', cfg_accountId = None,
             cfg_workspaceId = None, options = None\<rparr>\<rparr>
   \<and> createFromEnv example_new_Skyflow None (example_env(''SKYFLOW_API_KEY'' := None)) =
       createFromEnv example_new_Skyflow None example_env
   \<and> createFromEnv example_new_Skyflow None (example_env(''SKYFLOW_VAULT_ID'' := None)) =
       Inl (SkyflowMCPError ''ConfigurationError'' ''CONFIGURATION_ERROR''
              ''SKYFLOW_VAULT_ID environment variable is required'' None None JUndefined)"
proof -
  let ?cfg = "\<lparr>cfg_vaultId = ''env-vault-id'',
             cfg_vaultUrl = ''https://envcluster.vault.skyflowapis.com'',
             credentials = Token ''env-bearer-token'', cfg_accountId = None,
             cfg_workspaceId = None, options = None\<rparr>"
  have v: "js_or (Option.bind None o_vaultId) (example_env ''SKYFLOW_VAULT_ID'') = Some ''env-vault-id''"
    and u: "js_or (Option.bind None o_vaultUrl) (example_env ''SKYFLOW_VAULT_URL'') =
        Some ''https://envcluster.vault.skyflowapis.com''"
    and a: "js_or (Option.bind None o_accountId) (example_env ''SKYFLOW_ACCOUNT_ID'') = None"
    and w: "js_or (Option.bind None o_workspaceId) (example_env ''SKYFLOW_WORKSPACE_ID'') = None"
    and b: "example_env ''SKYFLOW_BEARER_TOKEN'' = Some ''env-bearer-token''"
    by (simp_all add: js_or_def falsy_def example_env_def)
  have nv: "\<not> falsy (Some ''env-vault-id'')" "\<not> falsy (Some ''https://envcluster.vault.skyflowapis.com'')"
    "''env-bearer-token'' \<noteq> []"
    by (simp_all add: falsy_def)
  have n: "SkyflowMCP_new example_new_Skyflow ?cfg =
     Inr \<lparr>skyflow =
            example_skyflow\<lparr>vaultConfigs :=
              [\<lparr>sdk_vaultId = ''env-vault-id'', sdk_clusterId = ''envcluster'',
                sdk_credentials = Token ''env-bearer-token''\<rparr>]\<rparr>,
          this_vaultId = ''env-vault-id'', this_config = ?cfg\<rparr>"
  proof -
    have e: "extractClusterId ''https://envcluster.vault.skyflowapis.com'' = Some ''envcluster''"
      by code_simp
    show ?thesis
      by (simp add: SkyflowMCP_new_def validateVaultConfig_def falsy_def e example_new_Skyflow_def)
  qed
  note t = createFromEnv_errors_and_precedence[of None example_env example_new_Skyflow,
      unfolded v u a w option.sel]
  from t b nv have 1: "createFromEnv example_new_Skyflow None example_env =
      SkyflowMCP_new example_new_Skyflow ?cfg"
    by simp
  from t b nv have 2: "createFromEnv example_new_Skyflow None (example_env(''SKYFLOW_API_KEY'' := None)) =
       createFromEnv example_new_Skyflow None example_env"
    by simp
  have v': "falsy (js_or (Option.bind None o_vaultId) ((example_env(''SKYFLOW_VAULT_ID'' := None)) ''SKYFLOW_VAULT_ID''))"
    by (simp add: js_or_def falsy_def)
  from createFromEnv_errors_and_precedence[of None "example_env(''SKYFLOW_VAULT_ID'' := None)" example_new_Skyflow] v'
  have 3: "createFromEnv example_new_Skyflow None (example_env(''SKYFLOW_VAULT_ID'' := None)) =
       Inl (ConfigurationError ''SKYFLOW_VAULT_ID environment variable is required'' None)"
    by blast
  show ?thesis using 1 2 3 unfolding n ConfigurationError_def by (intro conjI)
qed

text \<open>
  Claim C8, as stated, at \<^verbatim>\<open>createFromEnv({credentials: {apiKey: "override-key"}})\<close>. With
  both the bearer token and the API key variables set, the constructed client holds the
  overridden credentials, not the bearer token; with both variables unset, construction
  succeeds all the same.
\<close>

theorem createFromEnv_credentials_override_counterexample:
  "example_env ''SKYFLOW_BEARER_TOKEN'' = Some ''env-bearer-token''
   \<and> example_env ''SKYFLOW_API_KEY'' = Some ''env-api-key''
   \<and> createFromEnv example_new_Skyflow
       (Some \<lparr>o_vaultId = None, o_vaultUrl = None,
              o_credentials = Some (ApiKey ''override-key''),
              o_accountId = None, o_workspaceId = None, o_options = None\<rparr>)
       example_env =
     Inr \<lparr>skyflow =
            example_skyflow\<lparr>vaultConfigs :=
              [\<lparr>sdk_vaultId = ''env-vault-id'', sdk_clusterId = ''envcluster'',
                sdk_credentials = ApiKey ''override-key''\<rparr>]\<rparr>,
          this_vaultId = ''env-vault-id'',
          this_config =
            \<lparr>cfg_vaultId = ''env-vault-id'',
             cfg_vaultUrl = ''https://envcluster.vault.skyflowapis.com'',
             credentials = ApiKey ''override-key'', cfg_accountId = None,
             cfg_workspaceId = None, options = None\<rparr>\<rparr>
   \<and> createFromEnv example_new_Skyflow
       (Some \<lparr>o_vaultId = None, o_vaultUrl = None,
              o_credentials = Some (ApiKey ''override-key''),
              o_accountId = None, o_workspaceId = None, o_options = None\<rparr>)
       (example_env(''SKYFLOW_BEARER_TOKEN'' := None, ''SKYFLOW_API_KEY'' := None)) =
     Inr \<lparr>skyflow =
            example_skyflow\<lparr>vaultConfigs :=
              [\<lparr>sdk_vaultId = ''env-vault-id'', sdk_clusterId = ''envcluster'',
                sdk_credentials = ApiKey ''override-key''\<rparr>]\<rparr>,
          this_vaultId = ''env-vault-id'',
          this_config =
            \<lparr>cfg_vaultId = ''env-vault-id'',
             cfg_vaultUrl = ''https://envcluster.vault.skyflowapis.com'',
             credentials = ApiKey ''override-key'', cfg_accountId = None,
             cfg_workspaceId = None, options = None\<rparr>\<rparr>"
proof -
  let ?overrides = "Some \<lparr>o_vaultId = None, o_vaultUrl = None,
              o_credentials = Some (ApiKey ''override-key''),
              o_accountId = None, o_workspaceId = None, o_options = None\<rparr>"
  let ?client = "\<lparr>skyflow =
            example_skyflow\<lparr>vaultConfigs :=
              [\<lparr>sdk_vaultId = ''env-vault-id'', sdk_clusterId = ''envcluster'',
                sdk_credentials = ApiKey ''override-key''\<rparr>]\<rparr>,
          this_vaultId = ''env-vault-id'',
          this_config =
            \<lparr>cfg_vaultId = ''env-vault-id'',
             cfg_vaultUrl = ''https://envcluster.vault.skyflowapis.com'',
             credentials = ApiKey ''override-key'', cfg_accountId = None,
             cfg_workspaceId = None, options = None\<rparr>\<rparr>"
  have e: "extractClusterId ''https://envcluster.vault.skyflowapis.com'' = Some ''envcluster''"
    by code_simp
  have b: "example_env ''SKYFLOW_BEARER_TOKEN'' = Some ''env-bearer-token''"
    and k: "example_env ''SKYFLOW_API_KEY'' = Some ''env-api-key''"
    by (simp_all add: example_env_def)
  have 1: "createFromEnv example_new_Skyflow ?overrides example_env = Inr ?client"
    by (simp add: createFromEnv_def js_or_def falsy_def example_env_def SkyflowMCP_new_def
        validateVaultConfig_def e example_new_Skyflow_def)
  have 2: "createFromEnv example_new_Skyflow ?overrides
       (example_env(''SKYFLOW_BEARER_TOKEN'' := None, ''SKYFLOW_API_KEY'' := None)) = Inr ?client"
    by (simp add: createFromEnv_def js_or_def falsy_def example_env_def SkyflowMCP_new_def
        validateVaultConfig_def e example_new_Skyflow_def)
  show ?thesis using b k 1 2 by (intro conjI)
qed

end
